theory Spec2Isabelle
  imports Complex_Main "HOL-Library.Sublist" "HOL-Library.Multiset"
begin

section \<open>Python values used by the conversion pipeline of main.py\<close>

text \<open>
  Strings are lists of bytes (the UTF-8 encoding of the Python text; the program's own
  literals are ASCII apart from one dash and one arrow in log messages).
\<close>

subsection \<open>String operations\<close>

text \<open>Python \<^verbatim>\<open>sub in s\<close>.\<close>

fun str_contains :: "string \<Rightarrow> string \<Rightarrow> bool" where
  "str_contains sub [] = (sub = [])"
| "str_contains sub (c # cs) = (prefix sub (c # cs) \<or> str_contains sub cs)"

text \<open>
  Python \<^verbatim>\<open>s.split(sep)\<close> for a separator that is not empty (the program only
  splits on the literals \<^verbatim>\<open>"time="\<close>, \<^verbatim>\<open>" "\<close> and \<^verbatim>\<open>":"\<close>): the text is
  scanned from the left and cut at every occurrence found.
\<close>

function split_from :: "string \<Rightarrow> string \<Rightarrow> string \<Rightarrow> string list" where
  "split_from sep acc [] = [rev acc]"
| "split_from sep acc (c # cs) =
     (if sep \<noteq> [] \<and> prefix sep (c # cs)
      then rev acc # split_from sep [] (drop (length sep) (c # cs))
      else split_from sep (c # acc) cs)"
  by pat_completeness auto
termination
  by (relation "measure (\<lambda>(sep, acc, s). length s)") (auto simp: neq_Nil_conv)

definition py_split :: "string \<Rightarrow> string \<Rightarrow> string list" where
  "py_split s sep = split_from sep [] s"

text \<open>
  The characters \<^verbatim>\<open>str.isspace\<close> accepts, each in its UTF-8 encoding: U+0009 to
  U+000D, U+001C to U+001F, U+0020, U+0085, U+00A0, U+1680, U+2000 to U+200A, U+2028,
  U+2029, U+202F, U+205F and U+3000.
\<close>

definition space_codes :: "string list" where
  "space_codes =
     [[CHR 0x09], [CHR 0x0A], [CHR 0x0B], [CHR 0x0C], [CHR 0x0D],
      [CHR 0x1C], [CHR 0x1D], [CHR 0x1E], [CHR 0x1F], [CHR 0x20],
      [CHR 0xC2, CHR 0x85], [CHR 0xC2, CHR 0xA0],
      [CHR 0xE1, CHR 0x9A, CHR 0x80],
      [CHR 0xE2, CHR 0x80, CHR 0x80], [CHR 0xE2, CHR 0x80, CHR 0x81],
      [CHR 0xE2, CHR 0x80, CHR 0x82], [CHR 0xE2, CHR 0x80, CHR 0x83],
      [CHR 0xE2, CHR 0x80, CHR 0x84], [CHR 0xE2, CHR 0x80, CHR 0x85],
      [CHR 0xE2, CHR 0x80, CHR 0x86], [CHR 0xE2, CHR 0x80, CHR 0x87],
      [CHR 0xE2, CHR 0x80, CHR 0x88], [CHR 0xE2, CHR 0x80, CHR 0x89],
      [CHR 0xE2, CHR 0x80, CHR 0x8A],
      [CHR 0xE2, CHR 0x80, CHR 0xA8], [CHR 0xE2, CHR 0x80, CHR 0xA9],
      [CHR 0xE2, CHR 0x80, CHR 0xAF],
      [CHR 0xE2, CHR 0x81, CHR 0x9F],
      [CHR 0xE3, CHR 0x80, CHR 0x80]]"

text \<open>Taking the given byte sequences off the front of a text, as long as one is there.\<close>

function strip_front :: "string list \<Rightarrow> string \<Rightarrow> string" where
  "strip_front codes s =
     (case filter (\<lambda>w. w \<noteq> [] \<and> prefix w s) codes of
        [] \<Rightarrow> s
      | w # ws \<Rightarrow> strip_front codes (drop (length w) s))"
  by pat_completeness auto
termination
proof (relation "measure (\<lambda>(codes, s). length s)")
  show "wf (measure (\<lambda>(codes, s). length s))" by simp
next
  fix codes :: "string list" and s w :: string and ws
  assume "filter (\<lambda>w. w \<noteq> [] \<and> prefix w s) codes = w # ws"
  then have "w \<in> set (filter (\<lambda>w. w \<noteq> [] \<and> prefix w s) codes)" by simp
  then have "w \<noteq> []" and "prefix w s" by simp_all
  then have "0 < length w" and "s \<noteq> []" by auto
  then show "((codes, drop (length w) s), (codes, s)) \<in> measure (\<lambda>(codes, s). length s)"
    by simp
qed

text \<open>
  Python \<^verbatim>\<open>s.strip()\<close>: the white space characters are taken off the front, then
  off the end (on the reversed text, with the encodings reversed).
\<close>

definition py_strip :: "string \<Rightarrow> string" where
  "py_strip s = rev (strip_front (map rev space_codes) (rev (strip_front space_codes s)))"

subsection \<open>Exceptions\<close>

text \<open>
  The exceptions the Python library raises are told apart by class
  (\<open>NoEntryError\<close> is the library's own FileNotFoundError, for a path that does not
  exist).
\<close>

datatype lib_error =
    AttributeError
  | TypeError
  | ValueError
  | OverflowError
  | ZeroDivisionError
  | JSONDecodeError
  | UnicodeDecodeError
  | NoEntryError
  | NotADirectoryError
  | IsADirectoryError
  | FileExistsError

text \<open>
  An exception is one the pipeline raises itself, with the message it gives it, or
  one the library raises.
\<close>

datatype exn =
    SkipError string
  | RuntimeError string
  | FileNotFoundError string
  | Library lib_error

text \<open>
  \<^verbatim>\<open>str(e)\<close>, as the log lines print it. The text of an exception of the library
  is the library's business: it is given by the parameter \<open>lt\<close>.
\<close>

fun exn_str :: "(lib_error \<Rightarrow> string) \<Rightarrow> exn \<Rightarrow> string" where
  "exn_str lt (SkipError m) = m"
| "exn_str lt (RuntimeError m) = m"
| "exn_str lt (FileNotFoundError m) = m"
| "exn_str lt (Library c) = lt c"

subsection \<open>Floats\<close>

text \<open>
  A Python float is a finite number, an infinity or NaN (the sign of a zero is not
  kept: no result below depends on it). \<open>fmul\<close>, \<open>fadd\<close> and \<open>fdiv\<close> give the
  exact result of an operation on finite numbers; the special values follow IEEE 754,
  and a division by zero raises, as Python's does.
\<close>

datatype pyfloat = Fin real | PInf | NInf | NaN

fun fneg :: "pyfloat \<Rightarrow> pyfloat" where
  "fneg (Fin a) = Fin (- a)"
| "fneg PInf = NInf"
| "fneg NInf = PInf"
| "fneg NaN = NaN"

fun fmul :: "pyfloat \<Rightarrow> pyfloat \<Rightarrow> pyfloat" where
  "fmul NaN y = NaN"
| "fmul x NaN = NaN"
| "fmul (Fin a) (Fin b) = Fin (a * b)"
| "fmul (Fin a) y = (if a = 0 then NaN else if 0 < a then y else fneg y)"
| "fmul x (Fin b) = (if b = 0 then NaN else if 0 < b then x else fneg x)"
| "fmul x y = (if x = y then PInf else NInf)"

fun fadd :: "pyfloat \<Rightarrow> pyfloat \<Rightarrow> pyfloat" where
  "fadd NaN y = NaN"
| "fadd x NaN = NaN"
| "fadd (Fin a) (Fin b) = Fin (a + b)"
| "fadd (Fin a) y = y"
| "fadd x (Fin b) = x"
| "fadd x y = (if x = y then x else NaN)"

fun fdiv :: "pyfloat \<Rightarrow> pyfloat \<Rightarrow> lib_error + pyfloat" where
  "fdiv x (Fin b) =
     (if b = 0 then Inl ZeroDivisionError
      else case x of
             Fin a \<Rightarrow> Inr (Fin (a / b))
           | NaN \<Rightarrow> Inr NaN
           | _ \<Rightarrow> Inr (if 0 < b then x else fneg x))"
| "fdiv x NaN = Inr NaN"
| "fdiv (Fin a) y = Inr (Fin 0)"
| "fdiv x y = Inr NaN"

text \<open>
  The float a Python operation returns is its exact result rounded to a double. The
  rounding \<open>rnd\<close> of a real number to the nearest double (an infinity when the number
  is beyond the range of the doubles) is a parameter.
\<close>

definition fround :: "(real \<Rightarrow> pyfloat) \<Rightarrow> pyfloat \<Rightarrow> pyfloat" where
  "fround rnd x = (case x of Fin a \<Rightarrow> rnd a | _ \<Rightarrow> x)"

text \<open>\<^verbatim>\<open>int(x)\<close> of a float: truncation towards zero.\<close>

fun float_to_int :: "pyfloat \<Rightarrow> lib_error + int" where
  "float_to_int (Fin a) = Inr (if 0 \<le> a then \<lfloor>a\<rfloor> else \<lceil>a\<rceil>)"
| "float_to_int NaN = Inl ValueError"
| "float_to_int x = Inl OverflowError"

text \<open>\<^verbatim>\<open>y > x\<close> on floats, and \<^verbatim>\<open>max(x, y)\<close>, which keeps \<open>x\<close> unless \<open>y > x\<close>.\<close>

fun fgt :: "pyfloat \<Rightarrow> pyfloat \<Rightarrow> bool" where
  "fgt NaN x = False"
| "fgt y NaN = False"
| "fgt (Fin b) (Fin a) = (a < b)"
| "fgt PInf x = (x \<noteq> PInf)"
| "fgt y NInf = (y \<noteq> NInf)"
| "fgt y x = False"

definition fmax :: "pyfloat \<Rightarrow> pyfloat \<Rightarrow> pyfloat" where
  "fmax x y = (if fgt y x then y else x)"

subsection \<open>Parsed JSON\<close>

datatype json =
    JNull
  | JBool bool
  | JInt int
  | JFloat pyfloat
  | JStr string
  | JArr "json list"
  | JObj "(string \<times> json) list"

text \<open>
  \<^verbatim>\<open>x.get(key, default)\<close>: only a dict has the method; a key bound to null gives null,
  not the default.
\<close>

definition dict_get :: "json \<Rightarrow> string \<Rightarrow> json \<Rightarrow> lib_error + json" where
  "dict_get x key dflt =
     (case x of
        JObj kvs \<Rightarrow> Inr (case map_of kvs key of None \<Rightarrow> dflt | Some v \<Rightarrow> v)
      | _ \<Rightarrow> Inl AttributeError)"

text \<open>What a \<^verbatim>\<open>for\<close> loop over the value visits.\<close>

definition py_iter :: "json \<Rightarrow> lib_error + json list" where
  "py_iter x =
     (case x of
        JArr xs \<Rightarrow> Inr xs
      | JObj kvs \<Rightarrow> Inr (map (\<lambda>kv. JStr (fst kv)) kvs)
      | JStr s \<Rightarrow> Inr (map (\<lambda>c. JStr [c]) s)
      | _ \<Rightarrow> Inl TypeError)"

text \<open>
  \<^verbatim>\<open>float(x)\<close>. The text-to-float conversion of the Python library is a parameter
  \<open>pf\<close> (\<open>None\<close> when it raises ValueError). An integer is rounded to a double, and
  one beyond the range of the doubles raises OverflowError.
\<close>

definition py_float ::
  "(string \<Rightarrow> pyfloat option) \<Rightarrow> (real \<Rightarrow> pyfloat) \<Rightarrow> json \<Rightarrow> lib_error + pyfloat"
where
  "py_float pf rnd x =
     (case x of
        JStr s \<Rightarrow> (case pf s of None \<Rightarrow> Inl ValueError | Some f \<Rightarrow> Inr f)
      | JInt i \<Rightarrow> (case rnd (of_int i) of Fin a \<Rightarrow> Inr (Fin a) | _ \<Rightarrow> Inl OverflowError)
      | JFloat f \<Rightarrow> Inr f
      | JBool b \<Rightarrow> Inr (Fin (if b then 1 else 0))
      | _ \<Rightarrow> Inl TypeError)"

section \<open>Probing utilities\<close>

text \<open>\<^verbatim>\<open>get_duration_seconds\<close>: every exception gives 0.0.\<close>

definition get_duration_seconds ::
  "(string \<Rightarrow> pyfloat option) \<Rightarrow> (real \<Rightarrow> pyfloat) \<Rightarrow> json \<Rightarrow> pyfloat"
where
  "get_duration_seconds pf rnd meta =
     (case dict_get meta ''format'' (JObj []) of
        Inl e \<Rightarrow> Fin 0
      | Inr fmt \<Rightarrow>
          (case dict_get fmt ''duration'' (JFloat (Fin 0)) of
             Inl e \<Rightarrow> Fin 0
           | Inr d \<Rightarrow> (case py_float pf rnd d of Inl e \<Rightarrow> Fin 0 | Inr x \<Rightarrow> x)))"

text \<open>
  The loop of \<^verbatim>\<open>codecs_are_hls_friendly\<close> over the streams, on the pair
  \<open>(v_ok, a_ok)\<close>: each video stream assigns \<open>v_ok\<close>, each audio stream assigns \<open>a_ok\<close>.
\<close>

fun codec_loop :: "json list \<Rightarrow> bool \<times> bool \<Rightarrow> lib_error + (bool \<times> bool)" where
  "codec_loop [] st = Inr st"
| "codec_loop (s # ss) (v_ok, a_ok) =
     (case dict_get s ''codec_type'' JNull of
        Inl e \<Rightarrow> Inl e
      | Inr ct \<Rightarrow>
          (case dict_get s ''codec_name'' JNull of
             Inl e \<Rightarrow> Inl e
           | Inr cn \<Rightarrow>
               codec_loop ss
                 (if ct = JStr ''video'' then cn \<in> set [JStr ''h264''] else v_ok,
                  if ct = JStr ''audio''
                  then cn \<in> set [JStr ''aac'', JStr ''mp3'', JStr ''ac3'']
                  else a_ok)))"

definition codecs_are_hls_friendly :: "json \<Rightarrow> lib_error + bool" where
  "codecs_are_hls_friendly meta =
     (case dict_get meta ''streams'' (JArr []) of
        Inl e \<Rightarrow> Inl e
      | Inr streams \<Rightarrow>
          (case py_iter streams of
             Inl e \<Rightarrow> Inl e
           | Inr ss \<Rightarrow>
               (case codec_loop ss (False, True) of
                  Inl e \<Rightarrow> Inl e
                | Inr (v_ok, a_ok) \<Rightarrow> Inr (v_ok \<and> a_ok))))"

section \<open>Paths and the file system\<close>

text \<open>
  A path is the list of its components below the root; a directory is the list of its
  entries, in listing order. File contents play no part in the pipeline.
\<close>

type_synonym path = "string list"

datatype node = File | Dir "(string \<times> node) list"

text \<open>\<^verbatim>\<open>str(p)\<close> and \<^verbatim>\<open>os.path.join\<close> of components.\<close>

definition path_str :: "path \<Rightarrow> string" where
  "path_str p = (if p = [] then ''/'' else concat (map (\<lambda>c. ''/'' @ c) p))"

fun path_join :: "string list \<Rightarrow> string" where
  "path_join [] = []"
| "path_join [c] = c"
| "path_join (c # d # ds) = c @ ''/'' @ path_join (d # ds)"

text \<open>\<^verbatim>\<open>p.name\<close>: the last component.\<close>

definition path_name :: "path \<Rightarrow> string" where
  "path_name p = (if p = [] then [] else last p)"

text \<open>
  \<^verbatim>\<open>p.stem\<close>: the name without its last suffix. With \<open>i\<close> the index of the last dot
  of the name, the suffix starts at \<open>i\<close> when \<open>0 < i < len(name) - 1\<close>; \<open>k\<close> below is
  the number of characters after that dot.
\<close>

definition path_stem :: "path \<Rightarrow> string" where
  "path_stem p =
     (let name = path_name p;
          k = length (takeWhile (\<lambda>c. c \<noteq> CHR ''.'') (rev name))
      in if k < length name \<and> 0 < k \<and> 0 < length name - k - 1
         then take (length name - k - 1) name
         else name)"

fun lookup :: "node \<Rightarrow> path \<Rightarrow> node option" where
  "lookup n [] = Some n"
| "lookup n (c # cs) =
     (case n of
        File \<Rightarrow> None
      | Dir es \<Rightarrow> (case map_of es c of None \<Rightarrow> None | Some m \<Rightarrow> lookup m cs))"

text \<open>Deleting the entry at a path, with everything below it.\<close>

fun remove :: "path \<Rightarrow> node \<Rightarrow> node" where
  "remove [] n = n"
| "remove [c] n =
     (case n of File \<Rightarrow> File | Dir es \<Rightarrow> Dir (filter (\<lambda>e. fst e \<noteq> c) es))"
| "remove (c # cs) n =
     (case n of
        File \<Rightarrow> File
      | Dir es \<Rightarrow> Dir (map (\<lambda>e. if fst e = c then (c, remove cs (snd e)) else e) es))"

text \<open>\<^verbatim>\<open>shutil.rmtree(p)\<close>, errors not ignored.\<close>

definition rmtree :: "path \<Rightarrow> node \<Rightarrow> lib_error + node" where
  "rmtree p w =
     (case lookup w p of
        None \<Rightarrow> Inl NoEntryError
      | Some File \<Rightarrow> Inl NotADirectoryError
      | Some (Dir es) \<Rightarrow> Inr (remove p w))"

text \<open>\<^verbatim>\<open>p.mkdir(parents=True, exist_ok=True)\<close>.\<close>

fun mkdirs :: "path \<Rightarrow> node \<Rightarrow> lib_error + node" where
  "mkdirs [] n = (case n of File \<Rightarrow> Inl FileExistsError | Dir es \<Rightarrow> Inr n)"
| "mkdirs (c # cs) n =
     (case n of
        File \<Rightarrow> Inl NotADirectoryError
      | Dir es \<Rightarrow>
          (case map_of es c of
             None \<Rightarrow>
               (case mkdirs cs (Dir []) of
                  Inl e \<Rightarrow> Inl e
                | Inr m \<Rightarrow> Inr (Dir (es @ [(c, m)])))
           | Some m0 \<Rightarrow>
               (case mkdirs cs m0 of
                  Inl e \<Rightarrow> Inl e
                | Inr m \<Rightarrow> Inr (Dir (map (\<lambda>e. if fst e = c then (c, m) else e) es)))))"

text \<open>Opening a file for writing: its directory must exist; the file is created or truncated.\<close>

fun create_file :: "path \<Rightarrow> node \<Rightarrow> lib_error + node" where
  "create_file [] n = Inl IsADirectoryError"
| "create_file [c] n =
     (case n of
        File \<Rightarrow> Inl NotADirectoryError
      | Dir es \<Rightarrow>
          (case map_of es c of
             Some (Dir ds) \<Rightarrow> Inl IsADirectoryError
           | _ \<Rightarrow> Inr (Dir (filter (\<lambda>e. fst e \<noteq> c) es @ [(c, File)]))))"
| "create_file (c # cs) n =
     (case n of
        File \<Rightarrow> Inl NotADirectoryError
      | Dir es \<Rightarrow>
          (case map_of es c of
             None \<Rightarrow> Inl NoEntryError
           | Some m0 \<Rightarrow>
               (case create_file cs m0 of
                  Inl e \<Rightarrow> Inl e
                | Inr m \<Rightarrow> Inr (Dir (map (\<lambda>e. if fst e = c then (c, m) else e) es)))))"

text \<open>
  \<^verbatim>\<open>os.walk(top)\<close>, top down: for every directory its path, the names of its
  sub-directories and the names of its other entries. A top that is no directory
  yields nothing.
\<close>

fun os_walk :: "path \<Rightarrow> node \<Rightarrow> (path \<times> string list \<times> string list) list" where
  "os_walk d File = []"
| "os_walk d (Dir es) =
     (d, map fst (filter (\<lambda>e. snd e \<noteq> File) es), map fst (filter (\<lambda>e. snd e = File) es))
       # concat (map (\<lambda>e. os_walk (d @ [fst e]) (snd e)) es)"

text \<open>\<^verbatim>\<open>os.path.relpath(p, start)\<close> on absolute, normalised paths.\<close>

definition relpath :: "path \<Rightarrow> path \<Rightarrow> string" where
  "relpath p start =
     (let i = length (longest_common_prefix start p);
          rel_list = replicate (length start - i) ''..'' @ drop i p
      in if rel_list = [] then ''.'' else path_join rel_list)"

text \<open>\<^verbatim>\<open>str(n)\<close> of an integer.\<close>

function str_nat :: "nat \<Rightarrow> string" where
  "str_nat n = (if n < 10 then [''0123456789'' ! n] else str_nat (n div 10) @ [''0123456789'' ! (n mod 10)])"
  by pat_completeness auto
termination
  by (relation "measure id") auto

definition py_str_int :: "int \<Rightarrow> string" where
  "py_str_int i = (if i < 0 then ''-'' @ str_nat (nat (- i)) else str_nat (nat i))"

section \<open>Jobs, observable actions and the environment\<close>

record job =
  src :: path
  out_root :: path
  skip_if_incompatible :: bool
  enable_transcode_if_needed :: bool
  segment_seconds :: int

text \<open>
  What a run does that can be seen from outside, in program order: the five signals
  of \<^verbatim>\<open>Signals\<close>, the external processes started (with their argument lists), and
  the changes made to the file system.
\<close>

datatype action =
    Log string
  | Progress int
  | FileProgress string int
  | FileDone string string
  | AllDone
  | Rmtree path
  | Mkdir path
  | RunProbe "string list"
  | RunEncoder "string list"
  | Unlink path
  | ZipOpen path
  | ZipWrite path string

text \<open>
  One \<^verbatim>\<open>proc.stderr.readline()\<close> on the encoder's status output, a pipe opened in
  text mode: a line, with the two clock readings the loop takes for it (the one
  compared with \<open>last_update\<close> and the one stored in it), or bytes that do not decode,
  for which the call raises UnicodeDecodeError.
\<close>

datatype stderr_read = Line string real real | Undecodable

text \<open>
  What the world outside answers while one job is processed: the library's
  text-to-float conversion, its rounding of real numbers to doubles, and the text of
  the exceptions it raises; whether the prober's output decodes as text, the prober's
  exit status, its standard output as \<^verbatim>\<open>json.loads\<close> reads it (\<open>None\<close>: not JSON)
  and its standard error; the clock when the progress loop starts, the reads of the
  encoder's status output up to the end of its stream, the encoder's exit status, and
  what the encoder does to the file system. Both processes are taken to start and to
  exit.
\<close>

record job_env =
  float_of :: "string \<Rightarrow> pyfloat option"
  float_round :: "real \<Rightarrow> pyfloat"
  lib_text :: "lib_error \<Rightarrow> string"
  probe_decodes :: bool
  probe_rc :: int
  probe_json :: "json option"
  probe_stderr :: string
  enc_clock0 :: real
  enc_stderr :: "stderr_read list"
  enc_rc :: int
  enc_effect :: "node \<Rightarrow> node"

text \<open>
  For the whole run: what \<^verbatim>\<open>shutil.which\<close> finds, which path texts exist, the
  platform, the directory of the script, the value of the \<^verbatim>\<open>_stop\<close> flag when the
  loop tests it before job \<open>i\<close>, and the environment of job \<open>i\<close> (the jobs are
  numbered from 1; number 0 is the time before the first job).
\<close>

record run_env =
  which :: "string \<Rightarrow> string option"
  path_exists :: "string \<Rightarrow> bool"
  is_win :: bool
  script_dir :: string
  stop_flag :: "nat \<Rightarrow> bool"
  env_of_job :: "nat \<Rightarrow> job_env"

section \<open>FFmpeg discovery\<close>

definition exe_name :: "run_env \<Rightarrow> string \<Rightarrow> string" where
  "exe_name env name = (if is_win env then name @ ''.exe'' else name)"

definition not_found_msg :: string where
  "not_found_msg =
     ''FFmpeg/FFprobe not found. Please install FFmpeg and ensure both 'ffmpeg' and 'ffprobe' are in PATH,''
     @ [CHR 0x0A] @ ''or place them in a './bin' folder next to this script.''"

text \<open>The first candidate that is a non-empty text naming an existing path.\<close>

definition first_existing :: "run_env \<Rightarrow> string option list \<Rightarrow> string option" where
  "first_existing env candidates =
     (case filter (\<lambda>c. case c of None \<Rightarrow> False | Some t \<Rightarrow> t \<noteq> [] \<and> path_exists env t) candidates of
        [] \<Rightarrow> None
      | c # cs \<Rightarrow> c)"

definition find_ffmpeg_binaries :: "run_env \<Rightarrow> exn + (string \<times> string)" where
  "find_ffmpeg_binaries env =
     (let sep = (if is_win env then [CHR 0x5C] else ''/'');
          candidates = [which env ''ffmpeg'',
                        Some (script_dir env @ sep @ ''bin'' @ sep @ exe_name env ''ffmpeg'')];
          ffmpeg_path = first_existing env candidates;
          candidates_probe = [which env ''ffprobe'',
                              Some (script_dir env @ sep @ ''bin'' @ sep @ exe_name env ''ffprobe'')];
          ffprobe_path = first_existing env candidates_probe
      in case (ffmpeg_path, ffprobe_path) of
           (Some f, Some p) \<Rightarrow> Inr (f, p)
         | _ \<Rightarrow> Inl (FileNotFoundError not_found_msg))"

section \<open>The prober\<close>

definition probe_cmd :: "string \<Rightarrow> string \<Rightarrow> string list" where
  "probe_cmd ffprobe_path input_path =
     [ffprobe_path, ''-v'', ''error'', ''-print_format'', ''json'',
      ''-show_streams'', ''-show_format'', input_path]"

text \<open>
  \<^verbatim>\<open>ffprobe_streams\<close>: the metadata or the exception raised, and the process started.
  \<^verbatim>\<open>subprocess.run\<close> reads both outputs in text mode and raises UnicodeDecodeError
  when one of them does not decode.
\<close>

definition ffprobe_streams :: "job_env \<Rightarrow> string \<Rightarrow> string \<Rightarrow> (exn + json) \<times> action list" where
  "ffprobe_streams env ffprobe_path input_path =
     (let cmd = probe_cmd ffprobe_path input_path
      in (if \<not> probe_decodes env then Inl (Library UnicodeDecodeError)
          else if probe_rc env \<noteq> 0 then Inl (RuntimeError (py_strip (probe_stderr env)))
          else (case probe_json env of None \<Rightarrow> Inl (Library JSONDecodeError) | Some v \<Rightarrow> Inr v),
          [RunProbe cmd]))"

section \<open>The conversion worker\<close>

text \<open>
  The body of the \<^verbatim>\<open>try\<close> block of the progress loop, for a line that holds
  \<^verbatim>\<open>time=\<close>. First the elapsed seconds \<^verbatim>\<open>cur\<close> read off the line (lines 231 to
  233), \<open>None\<close> when the split or a conversion raises. Each of the two products and
  of the two sums is rounded.
\<close>

definition line_seconds ::
  "(string \<Rightarrow> pyfloat option) \<Rightarrow> (real \<Rightarrow> pyfloat) \<Rightarrow> string \<Rightarrow> pyfloat option"
where
  "line_seconds pf rnd line =
     (let tstr = py_strip (hd (py_split (last (py_split line ''time='')) '' ''))
      in case py_split tstr '':'' of
           [h, m, s] \<Rightarrow>
             (case (pf h, pf m, pf s) of
                (Some fh, Some fm, Some fs) \<Rightarrow>
                  Some (fround rnd (fadd (fround rnd (fadd (fround rnd (fmul fh (Fin 3600)))
                                                            (fround rnd (fmul fm (Fin 60)))))
                                         fs))
              | _ \<Rightarrow> None)
         | _ \<Rightarrow> None)"

text \<open>
  Then \<^verbatim>\<open>pct = max(0, min(100, int(cur * 100 / duration)))\<close> (line 234), \<open>None\<close> when
  the division or the conversion to an integer raises. The product is rounded, and so
  is the quotient.
\<close>

definition percent_of :: "(real \<Rightarrow> pyfloat) \<Rightarrow> pyfloat \<Rightarrow> pyfloat \<Rightarrow> int option" where
  "percent_of rnd cur duration =
     (case fdiv (fround rnd (fmul cur (Fin 100))) duration of
        Inl e \<Rightarrow> None
      | Inr q \<Rightarrow>
          (case float_to_int (fround rnd q) of
             Inl e \<Rightarrow> None
           | Inr n \<Rightarrow> Some (max 0 (min 100 n))))"

definition line_pct ::
  "(string \<Rightarrow> pyfloat option) \<Rightarrow> (real \<Rightarrow> pyfloat) \<Rightarrow> pyfloat \<Rightarrow> string \<Rightarrow> int option"
where
  "line_pct pf rnd duration line =
     (case line_seconds pf rnd line of
        None \<Rightarrow> None
      | Some cur \<Rightarrow> percent_of rnd cur duration)"

text \<open>The double that the source writes \<^verbatim>\<open>0.05\<close>.\<close>

definition update_interval :: real where
  "update_interval = 3602879701896397 / 72057594037927936"

text \<open>
  The \<^verbatim>\<open>while True\<close> loop over the reads of the encoder's status output: the
  exception that ends it, or its normal end, and the signals emitted. An empty line
  is the end of the stream; the loop then leaves once the process has exited. The
  read (line 220) is outside the \<^verbatim>\<open>try\<close> block, so that a read that raises ends
  the loop with its exception. \<open>last_update\<close> is the loop's variable of that name;
  the difference of the two clock readings is rounded before it is compared.
\<close>

fun progress_loop ::
  "(string \<Rightarrow> pyfloat option) \<Rightarrow> (real \<Rightarrow> pyfloat) \<Rightarrow> pyfloat \<Rightarrow> string \<Rightarrow> real
     \<Rightarrow> stderr_read list \<Rightarrow> (exn + unit) \<times> action list"
where
  "progress_loop pf rnd duration name last_update [] = (Inr (), [])"
| "progress_loop pf rnd duration name last_update (Undecodable # rest) =
     (Inl (Library UnicodeDecodeError), [])"
| "progress_loop pf rnd duration name last_update (Line line t_test t_set # rest) =
     (if line = [] then (Inr (), [])
      else if str_contains ''time='' line then
        (case line_pct pf rnd duration line of
           None \<Rightarrow> progress_loop pf rnd duration name last_update rest
         | Some pct \<Rightarrow>
             if fgt (rnd (t_test - last_update)) (Fin update_interval)
             then (fst (progress_loop pf rnd duration name t_set rest),
                   FileProgress name pct # snd (progress_loop pf rnd duration name t_set rest))
             else progress_loop pf rnd duration name last_update rest)
      else progress_loop pf rnd duration name last_update rest)"

definition em_dash :: string where
  "em_dash = [CHR 0xE2, CHR 0x80, CHR 0x94]"

definition right_arrow :: string where
  "right_arrow = [CHR 0xE2, CHR 0x86, CHR 0x92]"

definition skip_msg :: string where
  "skip_msg = ''Codecs not HLS-friendly (need H.264 video and AAC/MP3/AC3 audio).''"

definition ffmpeg_failed_msg :: string where
  "ffmpeg_failed_msg = ''ffmpeg failed '' @ em_dash @ '' check logs and ensure codecs are supported.''"

text \<open>The three pieces of the encoder's argument list, in the order they are appended.\<close>

definition input_args :: "string \<Rightarrow> job \<Rightarrow> string list" where
  "input_args ffmpeg j =
     [ffmpeg, ''-y'', ''-hide_banner'', ''-loglevel'', ''error'', ''-stats'',
      ''-i'', path_str (src j)]"

definition copy_args :: "string list" where
  "copy_args = [''-c:v'', ''copy'', ''-c:a'', ''copy'']"

definition transcode_args :: "string list" where
  "transcode_args = [''-c:v'', ''libx264'', ''-preset'', ''veryfast'', ''-crf'', ''18'',
                     ''-c:a'', ''aac'', ''-b:a'', ''192k'']"

definition output_args :: "job \<Rightarrow> path \<Rightarrow> string list" where
  "output_args j out_dir =
     [''-movflags'', ''+faststart'',
      ''-f'', ''hls'',
      ''-hls_time'', py_str_int (segment_seconds j),
      ''-hls_list_size'', ''0'',
      ''-hls_segment_filename'', path_str (out_dir @ [''segment_%05d.ts'']),
      path_str (out_dir @ [''playlist.m3u8''])]"

definition out_dir_of :: "job \<Rightarrow> path" where
  "out_dir_of j = out_root j @ [path_stem (src j) @ ''_hls'']"

definition zip_path_of :: "job \<Rightarrow> path" where
  "zip_path_of j = out_root j @ [path_stem (src j) @ ''.zip'']"

text \<open>
  The first statements of \<^verbatim>\<open>_process_one\<close> (lines 181 to 184): an existing
  \<open>out_dir\<close> is removed with its contents, then the directory is made. The result is
  the exception raised or a normal end, the actions, and the file system left.
\<close>

definition fresh_out_dir :: "path \<Rightarrow> node \<Rightarrow> (exn + unit) \<times> action list \<times> node" where
  "fresh_out_dir out_dir w =
     (let existed = (lookup w out_dir \<noteq> None)
      in (case (if existed then rmtree out_dir w else Inr w) of
            Inl e \<Rightarrow> (Inl (Library e), [], w)
          | Inr w0 \<Rightarrow>
              (let a0 = (if existed then [Rmtree out_dir] else [])
               in (case mkdirs out_dir w0 of
                     Inl e \<Rightarrow> (Inl (Library e), a0, w0)
                   | Inr w1 \<Rightarrow> (Inr (), a0 @ [Mkdir out_dir], w1)))))"

text \<open>The two loops that fill the archive: one \<^verbatim>\<open>zf.write(p, arcname)\<close> per file.\<close>

definition zip_writes :: "path \<Rightarrow> node \<Rightarrow> action list" where
  "zip_writes out_dir w =
     concat (map (\<lambda>(r, dirs, files).
                    map (\<lambda>f. ZipWrite (r @ [f]) (relpath (r @ [f]) out_dir)) files)
                 (case lookup w out_dir of None \<Rightarrow> [] | Some n \<Rightarrow> os_walk out_dir n))"

text \<open>
  The packaging statements of \<^verbatim>\<open>_process_one\<close> (lines 247 to 259): an existing
  archive is unlinked, the archive is opened for writing and filled, and the working
  directory is removed, errors ignored.
\<close>

definition package :: "job \<Rightarrow> node \<Rightarrow> (exn + unit) \<times> action list \<times> node" where
  "package j w2 =
     (let out_dir = out_dir_of j;
          zip_path = zip_path_of j;
          zip_existed = (lookup w2 zip_path \<noteq> None)
      in (case (if zip_existed
                then (case lookup w2 zip_path of
                        Some (Dir ds) \<Rightarrow> Inl IsADirectoryError
                      | _ \<Rightarrow> Inr (remove zip_path w2))
                else Inr w2) of
            Inl e \<Rightarrow> (Inl (Library e), [], w2)
          | Inr w3 \<Rightarrow>
              (let a3 = (if zip_existed then [Unlink zip_path] else [])
               in (case create_file zip_path w3 of
                     Inl e \<Rightarrow> (Inl (Library e), a3, w3)
                   | Inr w4 \<Rightarrow>
                       (let removable = (case lookup w4 out_dir of
                                           Some (Dir ds) \<Rightarrow> True
                                         | _ \<Rightarrow> False)
                        in (Inr (),
                            a3 @ [ZipOpen zip_path] @ zip_writes out_dir w4
                               @ (if removable then [Rmtree out_dir] else []),
                            if removable then remove out_dir w4 else w4))))))"

text \<open>
  \<^verbatim>\<open>ConverterThread._process_one\<close>: the exception raised or a normal return, the
  actions in order, and the file system it leaves. An exception of the progress loop
  leaves the \<^verbatim>\<open>with\<close> block, which closes the pipes and waits for the encoder; the
  exit status is then not looked at.
\<close>

definition process_one ::
  "job_env \<Rightarrow> string \<Rightarrow> string \<Rightarrow> job \<Rightarrow> node \<Rightarrow> (exn + unit) \<times> action list \<times> node"
where
  "process_one env ffmpeg ffprobe j w =
     (let out_dir = out_dir_of j;
          made = fresh_out_dir out_dir w;
          a0 = fst (snd made);
          w1 = snd (snd made)
      in (case fst made of
            Inl e \<Rightarrow> (Inl e, a0, w1)
          | Inr u \<Rightarrow>
     (let probed = ffprobe_streams env ffprobe (path_str (src j));
          a1 = a0 @ snd probed
      in (case fst probed of
            Inl e \<Rightarrow> (Inl e, a1, w1)
          | Inr meta \<Rightarrow>
     (let duration = fmax (Fin 1) (get_duration_seconds (float_of env) (float_round env) meta)
      in (case codecs_are_hls_friendly meta of
            Inl e \<Rightarrow> (Inl (Library e), a1, w1)
          | Inr hls_ok \<Rightarrow>
     (if \<not> hls_ok \<and> skip_if_incompatible j \<and> \<not> enable_transcode_if_needed j
      then (Inl (SkipError skip_msg), a1, w1)
      else
     (let args = input_args ffmpeg j
                 @ (if hls_ok then copy_args else transcode_args)
                 @ output_args j out_dir;
          looped = progress_loop (float_of env) (float_round env) duration (path_name (src j))
                     (enc_clock0 env) (enc_stderr env);
          a2 = a1 @ [RunEncoder args] @ snd looped;
          w2 = enc_effect env w1
      in (case fst looped of
            Inl e \<Rightarrow> (Inl e, a2, w2)
          | Inr u \<Rightarrow>
     (if enc_rc env \<noteq> 0 then (Inl (RuntimeError ffmpeg_failed_msg), a2, w2)
      else
     (let packed = package j w2;
          a3 = a2 @ fst (snd packed);
          w3 = snd (snd packed)
      in (case fst packed of
            Inl e \<Rightarrow> (Inl e, a3, w3)
          | Inr u \<Rightarrow>
              (Inr (),
               a3 @ [Log (''DONE: '' @ path_name (src j) @ '' '' @ right_arrow @ '' ''
                          @ path_name (zip_path_of j)),
                     FileProgress (path_name (src j)) 100],
               w3)))))))))))))"

section \<open>The pipeline controller\<close>

text \<open>
  What the handlers of the \<^verbatim>\<open>try\<close> statement in the loop of \<^verbatim>\<open>run\<close> emit for
  the result of \<^verbatim>\<open>_process_one\<close>: OK after a normal return, a log line and SKIP
  after SkipError, a log line and FAIL after any other exception.
\<close>

fun terminal_events :: "(lib_error \<Rightarrow> string) \<Rightarrow> string \<Rightarrow> exn + unit \<Rightarrow> action list" where
  "terminal_events lt name (Inr u) = [FileDone name ''OK'']"
| "terminal_events lt name (Inl (SkipError m)) =
     [Log (''SKIP: '' @ name @ '' '' @ em_dash @ '' '' @ m), FileDone name ''SKIP'']"
| "terminal_events lt name (Inl e) =
     [Log (''FAIL: '' @ name @ '' '' @ em_dash @ '' '' @ exn_str lt e), FileDone name ''FAIL'']"

text \<open>
  The \<^verbatim>\<open>for\<close> loop of \<^verbatim>\<open>ConverterThread.run\<close>, from job number \<open>i\<close> on. With \<open>n\<close>
  the \<^verbatim>\<open>total\<close> of the source, the percent \<^verbatim>\<open>int(i * 100 / total)\<close> is the integer
  quotient: the float quotient is correctly rounded and at most 100, so it truncates to
  the integer quotient for every list of fewer than \<open>2 ^ 46\<close> jobs.
\<close>

fun run_jobs ::
  "run_env \<Rightarrow> string \<Rightarrow> string \<Rightarrow> nat \<Rightarrow> nat \<Rightarrow> job list \<Rightarrow> node \<Rightarrow> action list \<times> node"
where
  "run_jobs env ffmpeg ffprobe n i [] w = ([], w)"
| "run_jobs env ffmpeg ffprobe n i (j # rest) w =
     (if stop_flag env i then ([], w)
      else
        let processed = process_one (env_of_job env i) ffmpeg ffprobe j w;
            reported = fst (snd processed)
                       @ terminal_events (lib_text (env_of_job env i)) (path_name (src j))
                           (fst processed)
                       @ [Progress ((int i * 100) div int n)];
            later = run_jobs env ffmpeg ffprobe n (Suc i) rest (snd (snd processed))
        in (reported @ fst later, snd later))"

definition run :: "run_env \<Rightarrow> job list \<Rightarrow> node \<Rightarrow> action list \<times> node" where
  "run env jobs w =
     (case find_ffmpeg_binaries env of
        Inl e \<Rightarrow> ([Log (''ERROR: '' @ exn_str (lib_text (env_of_job env 0)) e), AllDone], w)
      | Inr (ffmpeg, ffprobe) \<Rightarrow>
          (let (acts, w1) = run_jobs env ffmpeg ffprobe (length jobs) 1 jobs w
           in (acts @ [AllDone], w1)))"

section \<open>Reading a sequence of actions\<close>

definition encoder_calls :: "action list \<Rightarrow> string list list" where
  "encoder_calls acts = concat (map (\<lambda>a. case a of RunEncoder args \<Rightarrow> [args] | _ \<Rightarrow> []) acts)"


definition overall_percents :: "action list \<Rightarrow> int list" where
  "overall_percents acts = concat (map (\<lambda>a. case a of Progress p \<Rightarrow> [p] | _ \<Rightarrow> []) acts)"

text \<open>
  Whether every read of the progress loop gives a line: no read before the end of the
  stream meets bytes that do not decode.
\<close>

fun readable :: "stderr_read list \<Rightarrow> bool" where
  "readable [] = True"
| "readable (Undecodable # rest) = False"
| "readable (Line line t_test t_set # rest) = (line = [] \<or> readable rest)"

definition zip_entries :: "action list \<Rightarrow> (path \<times> string) list" where
  "zip_entries acts = concat (map (\<lambda>a. case a of ZipWrite p n \<Rightarrow> [(p, n)] | _ \<Rightarrow> []) acts)"

text \<open>
  The paths, relative to a node, of all files at or below it: the empty path for a
  file, and for a directory the paths of its entries, each under the entry's name.
\<close>

fun rel_files :: "node \<Rightarrow> path list" where
  "rel_files File = [[]]"
| "rel_files (Dir es) = concat (map (\<lambda>e. map ((#) (fst e)) (rel_files (snd e))) es)"

text \<open>
  The per-job reports of a run: for every terminal event (\<^verbatim>\<open>file_done\<close>) its file
  name and status together with the overall percent emitted right after it. There is
  no such reading (\<open>None\<close>) when a terminal event is not followed at once by an
  overall percent, or an overall percent does not follow a terminal event at once.
\<close>

fun job_reports :: "action list \<Rightarrow> (string \<times> string \<times> int) list option" where
  "job_reports [] = Some []"
| "job_reports (a # rest) =
     (case a of
        FileDone name status \<Rightarrow>
          (case rest of
             Progress p # rest' \<Rightarrow> map_option ((#) (name, status, p)) (job_reports rest')
           | _ \<Rightarrow> None)
      | Progress p \<Rightarrow> None
      | _ \<Rightarrow> job_reports rest)"

text \<open>
  The number of jobs the loop of \<^verbatim>\<open>run\<close> gets to, out of \<open>n\<close>: those before the
  first test that finds the stop flag set.
\<close>

definition jobs_processed :: "run_env \<Rightarrow> nat \<Rightarrow> nat" where
  "jobs_processed env n = length (takeWhile (\<lambda>i. \<not> stop_flag env i) [1..<Suc n])"

text \<open>The paths \<^verbatim>\<open>p = Path(root) / f\<close> the two loops over a walk visit.\<close>

definition walked_files :: "path \<Rightarrow> node \<Rightarrow> path list" where
  "walked_files d n = concat (map (\<lambda>(r, dirs, files). map (\<lambda>f. r @ [f]) files) (os_walk d n))"

section \<open>Concrete inputs\<close>

text \<open>
  A few values of Python's text-to-float conversion, enough for the inputs below;
  every other text is taken as one that \<^verbatim>\<open>float\<close> refuses.
\<close>

definition ex_float :: "string \<Rightarrow> pyfloat option" where
  "ex_float s =
     (if s = ''00'' then Some (Fin 0)
      else if s = ''00.50'' then Some (Fin (1 / 2))
      else if s = ''02.00'' then Some (Fin 2)
      else if s = ''12.5'' then Some (Fin (25 / 2))
      else None)"

text \<open>
  In the inputs below every product, sum and quotient of the progress loop is a
  double as it stands (0, 0.5, 2, 4, 16, 50 and 200), so that the rounding leaves it
  as it is.
\<close>

definition ex_round :: "real \<Rightarrow> pyfloat" where
  "ex_round x = Fin x"

text \<open>The texts of two exceptions of the library; the others play no part below.\<close>

definition ex_lib_text :: "lib_error \<Rightarrow> string" where
  "ex_lib_text c =
     (if c = UnicodeDecodeError
      then [CHR 0x27] @ ''utf-8' codec can't decode byte 0xff in position 0: invalid start byte''
      else if c = JSONDecodeError then ''Expecting value: line 1 column 1 (char 0)''
      else [])"

definition stream :: "string \<Rightarrow> string \<Rightarrow> json" where
  "stream t c = JObj [(''codec_type'', JStr t), (''codec_name'', JStr c)]"

definition ex_meta_two_audio :: json where
  "ex_meta_two_audio =
     JObj [(''streams'', JArr [stream ''video'' ''h264'', stream ''audio'' ''opus'',
                               stream ''audio'' ''aac''])]"


definition ex_meta_h264 :: json where
  "ex_meta_h264 =
     JObj [(''streams'', JArr [stream ''video'' ''h264'', stream ''audio'' ''aac'']),
           (''format'', JObj [(''duration'', JStr ''12.5'')])]"

definition ex_meta_hevc :: json where
  "ex_meta_hevc =
     JObj [(''streams'', JArr [stream ''video'' ''hevc'', stream ''audio'' ''aac'']),
           (''format'', JObj [(''duration'', JStr ''12.5'')])]"

definition ex_job :: job where
  "ex_job = \<lparr> src = [''videos'', ''clip.mp4''], out_root = [''out''],
              skip_if_incompatible = True, enable_transcode_if_needed = False,
              segment_seconds = 6 \<rparr>"

text \<open>A file system without the working directory, and one that has it from an earlier run.\<close>

definition ex_fs_new :: node where
  "ex_fs_new = Dir [(''videos'', Dir [(''clip.mp4'', File)]), (''out'', Dir [])]"

definition ex_fs_old :: node where
  "ex_fs_old = Dir [(''videos'', Dir [(''clip.mp4'', File)]),
                    (''out'', Dir [(''clip_hls'', Dir [(''segment_00000.ts'', File)])])]"

text \<open>The file system as an encoder run leaves it: a manifest and two segments.\<close>

definition ex_fs_encoded :: node where
  "ex_fs_encoded =
     Dir [(''videos'', Dir [(''clip.mp4'', File)]),
          (''out'', Dir [(''clip_hls'', Dir [(''playlist.m3u8'', File),
                                             (''segment_00000.ts'', File),
                                             (''segment_00001.ts'', File)])])]"

text \<open>
  An encoder that reports two seconds, then half a second, and exits with status
  \<open>rc\<close>; the prober answers \<open>meta\<close>.
\<close>

definition ex_env :: "json \<Rightarrow> int \<Rightarrow> job_env" where
  "ex_env meta rc =
     \<lparr> float_of = ex_float, float_round = ex_round, lib_text = ex_lib_text,
       probe_decodes = True, probe_rc = 0, probe_json = Some meta, probe_stderr = [],
       enc_clock0 = 0,
       enc_stderr =
         [Line ''frame=   48 fps=0.0 q=-1.0 size=N/A time=00:00:02.00 bitrate=N/A speed=3.9x'' 1 1,
          Line ''frame=   60 fps=0.0 q=-1.0 size=N/A time=00:00:00.50 bitrate=N/A speed=3.9x'' 2 2],
       enc_rc = rc,
       enc_effect = (\<lambda>w. ex_fs_encoded) \<rparr>"

text \<open>The same encoder, reporting half a second first and two seconds then.\<close>

definition ex_env_rising :: "json \<Rightarrow> int \<Rightarrow> job_env" where
  "ex_env_rising meta rc =
     (ex_env meta rc)
       \<lparr> enc_stderr :=
           [Line ''frame=   12 fps=0.0 q=-1.0 size=N/A time=00:00:00.50 bitrate=N/A speed=3.9x'' 1 1,
            Line ''frame=   48 fps=0.0 q=-1.0 size=N/A time=00:00:02.00 bitrate=N/A speed=3.9x'' 2 2] \<rparr>"

text \<open>
  An encoder whose status output holds, after a first line, bytes that do not decode.
\<close>

definition ex_env_undecodable :: "json \<Rightarrow> int \<Rightarrow> job_env" where
  "ex_env_undecodable meta rc =
     (ex_env meta rc)
       \<lparr> enc_stderr :=
           [Line ''frame=   12 fps=0.0 q=-1.0 size=N/A time=00:00:00.50 bitrate=N/A speed=3.9x'' 1 1,
            Undecodable] \<rparr>"

text \<open>
  A run of three jobs on the same source, the second one probed as hevc; the binaries
  are in the search path, and nobody asks the run to stop.
\<close>

definition ex_run_env :: run_env where
  "ex_run_env =
     \<lparr> which = (\<lambda>n. if n = ''ffmpeg'' then Some ''/usr/bin/ffmpeg''
                     else if n = ''ffprobe'' then Some ''/usr/bin/ffprobe''
                     else None),
       path_exists = (\<lambda>p. p = ''/usr/bin/ffmpeg'' \<or> p = ''/usr/bin/ffprobe''),
       is_win = False,
       script_dir = ''/app'',
       stop_flag = (\<lambda>i. False),
       env_of_job = (\<lambda>i. if i = 2 then ex_env ex_meta_hevc 0 else ex_env_rising ex_meta_h264 0) \<rparr>"

text \<open>The same with no binary to be found anywhere.\<close>

definition ex_run_env_missing :: run_env where
  "ex_run_env_missing = ex_run_env \<lparr> which := (\<lambda>n. None), path_exists := (\<lambda>p. False) \<rparr>"

text \<open>The same with a stop request that arrives while the first job is processed.\<close>

definition ex_run_env_stopped :: run_env where
  "ex_run_env_stopped = ex_run_env \<lparr> stop_flag := (\<lambda>i. 2 \<le> i) \<rparr>"

section \<open>Properties\<close>

subsection \<open>The compatibility decision of the prober\<close>

text \<open>
  C8. The claim asks that every audio stream be of an accepted codec. The loop assigns
  \<open>a_ok\<close> anew at every audio stream, so the last one alone decides: a file whose
  streams are h264 video, opus audio and aac audio is classified compatible.
\<close>

theorem last_audio_stream_decides:
  "codecs_are_hls_friendly ex_meta_two_audio = Inr True"
  by (simp add: codecs_are_hls_friendly_def ex_meta_two_audio_def stream_def dict_get_def
      py_iter_def)

subsection \<open>The duration floor\<close>





subsection \<open>The file system\<close>

lemma map_of_filter_same: "map_of (filter (\<lambda>e. fst e \<noteq> c) es) c = None"
  by (induction es) auto

lemma map_of_filter_other: "b \<noteq> c \<Longrightarrow> map_of (filter (\<lambda>e. fst e \<noteq> c) es) b = map_of es b"
  by (induction es) auto

lemma map_of_replace_same:
  "map_of (map (\<lambda>e. if fst e = c then (c, f (snd e)) else e) es) c = map_option f (map_of es c)"
  by (induction es) auto

lemma map_of_replace_other:
  "b \<noteq> c \<Longrightarrow> map_of (map (\<lambda>e. if fst e = c then (c, f (snd e)) else e) es) b = map_of es b"
  by (induction es) auto

lemma map_of_put_same:
  "map_of (map (\<lambda>e. if fst e = c then (c, m) else e) es) c = map_option (\<lambda>x. m) (map_of es c)"
  by (induction es) auto

lemma map_of_put_other:
  "b \<noteq> c \<Longrightarrow> map_of (map (\<lambda>e. if fst e = c then (c, m) else e) es) b = map_of es b"
  by (induction es) auto

lemma remove_Cons:
  "cs \<noteq> [] \<Longrightarrow> remove (c # cs) n =
     (case n of File \<Rightarrow> File
      | Dir es \<Rightarrow> Dir (map (\<lambda>e. if fst e = c then (c, remove cs (snd e)) else e) es))"
  by (cases cs; cases n) simp_all

lemma create_file_Cons:
  "cs \<noteq> [] \<Longrightarrow> create_file (c # cs) n =
     (case n of
        File \<Rightarrow> Inl NotADirectoryError
      | Dir es \<Rightarrow>
          (case map_of es c of
             None \<Rightarrow> Inl NoEntryError
           | Some m0 \<Rightarrow>
               (case create_file cs m0 of
                  Inl e \<Rightarrow> Inl e
                | Inr m \<Rightarrow> Inr (Dir (map (\<lambda>e. if fst e = c then (c, m) else e) es)))))"
  by (cases cs; cases n) (simp_all split: option.splits)

lemma lookup_remove_same: "p \<noteq> [] \<Longrightarrow> lookup (remove p w) p = None"
proof (induction p arbitrary: w)
  case Nil
  then show ?case by simp
next
  case (Cons c cs)
  show ?case
  proof (cases "cs = []")
    case True
    then show ?thesis by (cases w) (simp_all add: map_of_filter_same)
  next
    case False
    then show ?thesis
      using Cons.IH by (cases w) (auto simp: remove_Cons map_of_replace_same split: option.splits)
  qed
qed

lemma lookup_empty_dir: "(case lookup (Dir []) p of None \<Rightarrow> Dir [] | Some n \<Rightarrow> n) = Dir []"
  by (cases p) simp_all

lemma lookup_mkdirs:
  "mkdirs p w = Inr w1 \<Longrightarrow> lookup w1 p = Some (case lookup w p of None \<Rightarrow> Dir [] | Some n \<Rightarrow> n)"
proof (induction p arbitrary: w w1)
  case Nil
  then show ?case by (cases w) simp_all
next
  case (Cons c cs)
  from Cons.prems obtain es where w: "w = Dir es" by (cases w) simp_all
  show ?case
  proof (cases "map_of es c")
    case None
    with Cons.prems w obtain m where m: "mkdirs cs (Dir []) = Inr m" and w1: "w1 = Dir (es @ [(c, m)])"
      by (auto split: sum.splits)
    from Cons.IH [OF m] have "lookup m cs = Some (Dir [])" by (simp add: lookup_empty_dir)
    with None w w1 show ?thesis by (simp add: map_add_def)
  next
    case (Some m0)
    with Cons.prems w obtain m where m: "mkdirs cs m0 = Inr m"
      and w1: "w1 = Dir (map (\<lambda>e. if fst e = c then (c, m) else e) es)"
      by (auto split: sum.splits)
    from Cons.IH [OF m] Some w w1 show ?thesis by (simp add: map_of_put_same)
  qed
qed

lemma mkdirs_after_remove:
  "lookup w p = Some (Dir old) \<Longrightarrow> p \<noteq> [] \<Longrightarrow> \<exists>w1. mkdirs p (remove p w) = Inr w1"
proof (induction p arbitrary: w)
  case Nil
  then show ?case by simp
next
  case (Cons c cs)
  from Cons.prems obtain es m where w: "w = Dir es" and m: "map_of es c = Some m"
    and l: "lookup m cs = Some (Dir old)"
    by (cases w) (auto split: option.splits)
  show ?case
  proof (cases "cs = []")
    case True
    with w show ?thesis by (simp add: map_of_filter_same)
  next
    case False
    from Cons.IH [OF l False] obtain m1 where "mkdirs cs (remove cs m) = Inr m1" by blast
    with False w m show ?thesis by (simp add: remove_Cons map_of_replace_same)
  qed
qed

lemma fresh_out_dir_ok:
  assumes "fresh_out_dir d w = (Inr u, a0, w1)" and "d \<noteq> []"
  shows "lookup w1 d = Some (Dir [])"
    and "a0 = (if lookup w d \<noteq> None then [Rmtree d] else []) @ [Mkdir d]"
proof -
  show "a0 = (if lookup w d \<noteq> None then [Rmtree d] else []) @ [Mkdir d]"
    using assms(1)
    by (auto simp: fresh_out_dir_def Let_def rmtree_def split: sum.splits option.splits node.splits if_splits)
  show "lookup w1 d = Some (Dir [])"
  proof (cases "lookup w d")
    case None
    with assms(1) have "mkdirs d w = Inr w1"
      by (auto simp: fresh_out_dir_def Let_def split: sum.splits)
    from lookup_mkdirs [OF this] None show ?thesis by simp
  next
    case (Some n)
    with assms(1) have "mkdirs d (remove d w) = Inr w1"
      by (auto simp: fresh_out_dir_def Let_def rmtree_def split: sum.splits node.splits)
    from lookup_mkdirs [OF this] lookup_remove_same [OF assms(2)] show ?thesis by simp
  qed
qed

lemma fresh_out_dir_existing:
  assumes "lookup w d = Some (Dir old)" and "d \<noteq> []"
  shows "\<exists>w1. fresh_out_dir d w = (Inr (), [Rmtree d, Mkdir d], w1)"
proof -
  from mkdirs_after_remove [OF assms] obtain w1 where "mkdirs d (remove d w) = Inr w1" by blast
  with assms(1) show ?thesis
    by (simp add: fresh_out_dir_def Let_def rmtree_def)
qed

subsection \<open>The outcomes of one job\<close>

lemma out_dir_of_nonempty: "out_dir_of j \<noteq> []"
  by (simp add: out_dir_of_def)

lemma snd_ffprobe_streams:
  "snd (ffprobe_streams env ffprobe input) = [RunProbe (probe_cmd ffprobe input)]"
  by (simp add: ffprobe_streams_def Let_def)

lemma ffprobe_streams_not_skip: "fst (ffprobe_streams env ffprobe input) \<noteq> Inl (SkipError m)"
  by (simp add: ffprobe_streams_def Let_def split: option.splits)


lemma package_not_skip: "fst (package j w) \<noteq> Inl (SkipError m)"
  by (auto simp: package_def Let_def split: sum.splits)

text \<open>The progress loop ends with an exception just when a read does not decode.\<close>

lemma fst_progress_loop:
  "fst (progress_loop pf rnd d n lu ls)
     = (if readable ls then Inr () else Inl (Library UnicodeDecodeError))"
  by (induction pf rnd d n lu ls rule: progress_loop.induct) (auto split: option.splits)

text \<open>The result of \<^verbatim>\<open>_process_one\<close>, phase by phase.\<close>

lemma process_one_setup_failed:
  "fst (fresh_out_dir (out_dir_of j) w) = Inl e \<Longrightarrow>
   process_one env ffmpeg ffprobe j w = (Inl e, snd (fresh_out_dir (out_dir_of j) w))"
  by (simp add: process_one_def Let_def)

lemma process_one_probe_failed:
  "fresh_out_dir (out_dir_of j) w = (Inr (), a0, w1) \<Longrightarrow>
   fst (ffprobe_streams env ffprobe (path_str (src j))) = Inl e \<Longrightarrow>
   process_one env ffmpeg ffprobe j w =
     (Inl e, a0 @ [RunProbe (probe_cmd ffprobe (path_str (src j)))], w1)"
  by (simp add: process_one_def Let_def snd_ffprobe_streams)

lemma process_one_codecs_failed:
  "fresh_out_dir (out_dir_of j) w = (Inr (), a0, w1) \<Longrightarrow>
   fst (ffprobe_streams env ffprobe (path_str (src j))) = Inr meta \<Longrightarrow>
   codecs_are_hls_friendly meta = Inl e \<Longrightarrow>
   process_one env ffmpeg ffprobe j w =
     (Inl (Library e), a0 @ [RunProbe (probe_cmd ffprobe (path_str (src j)))], w1)"
  by (simp add: process_one_def Let_def snd_ffprobe_streams)

lemma process_one_skipped:
  "fresh_out_dir (out_dir_of j) w = (Inr (), a0, w1) \<Longrightarrow>
   fst (ffprobe_streams env ffprobe (path_str (src j))) = Inr meta \<Longrightarrow>
   codecs_are_hls_friendly meta = Inr False \<Longrightarrow>
   skip_if_incompatible j \<Longrightarrow> \<not> enable_transcode_if_needed j \<Longrightarrow>
   process_one env ffmpeg ffprobe j w =
     (Inl (SkipError skip_msg), a0 @ [RunProbe (probe_cmd ffprobe (path_str (src j)))], w1)"
  by (simp add: process_one_def Let_def snd_ffprobe_streams)

lemma process_one_read_failed:
  "fresh_out_dir (out_dir_of j) w = (Inr (), a0, w1) \<Longrightarrow>
   fst (ffprobe_streams env ffprobe (path_str (src j))) = Inr meta \<Longrightarrow>
   codecs_are_hls_friendly meta = Inr hls_ok \<Longrightarrow>
   hls_ok \<or> \<not> skip_if_incompatible j \<or> enable_transcode_if_needed j \<Longrightarrow>
   \<not> readable (enc_stderr env) \<Longrightarrow>
   process_one env ffmpeg ffprobe j w =
     (Inl (Library UnicodeDecodeError),
      a0 @ [RunProbe (probe_cmd ffprobe (path_str (src j))),
            RunEncoder (input_args ffmpeg j @ (if hls_ok then copy_args else transcode_args)
                        @ output_args j (out_dir_of j))]
         @ snd (progress_loop (float_of env) (float_round env)
                  (fmax (Fin 1) (get_duration_seconds (float_of env) (float_round env) meta))
                  (path_name (src j)) (enc_clock0 env) (enc_stderr env)),
      enc_effect env w1)"
  by (auto simp: process_one_def Let_def snd_ffprobe_streams fst_progress_loop)

lemma process_one_encoder_failed:
  "fresh_out_dir (out_dir_of j) w = (Inr (), a0, w1) \<Longrightarrow>
   fst (ffprobe_streams env ffprobe (path_str (src j))) = Inr meta \<Longrightarrow>
   codecs_are_hls_friendly meta = Inr hls_ok \<Longrightarrow>
   hls_ok \<or> \<not> skip_if_incompatible j \<or> enable_transcode_if_needed j \<Longrightarrow>
   readable (enc_stderr env) \<Longrightarrow>
   enc_rc env \<noteq> 0 \<Longrightarrow>
   process_one env ffmpeg ffprobe j w =
     (Inl (RuntimeError ffmpeg_failed_msg),
      a0 @ [RunProbe (probe_cmd ffprobe (path_str (src j))),
            RunEncoder (input_args ffmpeg j @ (if hls_ok then copy_args else transcode_args)
                        @ output_args j (out_dir_of j))]
         @ snd (progress_loop (float_of env) (float_round env)
                  (fmax (Fin 1) (get_duration_seconds (float_of env) (float_round env) meta))
                  (path_name (src j)) (enc_clock0 env) (enc_stderr env)),
      enc_effect env w1)"
  by (auto simp: process_one_def Let_def snd_ffprobe_streams fst_progress_loop)

lemma process_one_encoded:
  "fresh_out_dir (out_dir_of j) w = (Inr (), a0, w1) \<Longrightarrow>
   fst (ffprobe_streams env ffprobe (path_str (src j))) = Inr meta \<Longrightarrow>
   codecs_are_hls_friendly meta = Inr hls_ok \<Longrightarrow>
   hls_ok \<or> \<not> skip_if_incompatible j \<or> enable_transcode_if_needed j \<Longrightarrow>
   readable (enc_stderr env) \<Longrightarrow>
   enc_rc env = 0 \<Longrightarrow>
   process_one env ffmpeg ffprobe j w =
     (case fst (package j (enc_effect env w1)) of
        Inl e \<Rightarrow> Inl e
      | Inr u \<Rightarrow> Inr (),
      a0 @ [RunProbe (probe_cmd ffprobe (path_str (src j))),
            RunEncoder (input_args ffmpeg j @ (if hls_ok then copy_args else transcode_args)
                        @ output_args j (out_dir_of j))]
         @ snd (progress_loop (float_of env) (float_round env)
                  (fmax (Fin 1) (get_duration_seconds (float_of env) (float_round env) meta))
                  (path_name (src j)) (enc_clock0 env) (enc_stderr env))
         @ fst (snd (package j (enc_effect env w1)))
         @ (case fst (package j (enc_effect env w1)) of
              Inl e \<Rightarrow> []
            | Inr u \<Rightarrow> [Log (''DONE: '' @ path_name (src j) @ '' '' @ right_arrow @ '' ''
                              @ path_name (zip_path_of j)),
                         FileProgress (path_name (src j)) 100]),
      snd (snd (package j (enc_effect env w1))))"
  by (auto simp: process_one_def Let_def snd_ffprobe_streams fst_progress_loop split: sum.splits)

lemma process_one_outcomes:
  obtains
    (setup_failed) e where
      "fst (fresh_out_dir (out_dir_of j) w) = Inl e"
      "process_one env ffmpeg ffprobe j w = (Inl e, snd (fresh_out_dir (out_dir_of j) w))"
  | (probe_failed) a0 w1 e where
      "fresh_out_dir (out_dir_of j) w = (Inr (), a0, w1)"
      "fst (ffprobe_streams env ffprobe (path_str (src j))) = Inl e"
      "process_one env ffmpeg ffprobe j w =
         (Inl e, a0 @ [RunProbe (probe_cmd ffprobe (path_str (src j)))], w1)"
  | (codecs_failed) a0 w1 meta e where
      "fresh_out_dir (out_dir_of j) w = (Inr (), a0, w1)"
      "fst (ffprobe_streams env ffprobe (path_str (src j))) = Inr meta"
      "codecs_are_hls_friendly meta = Inl e"
      "process_one env ffmpeg ffprobe j w =
         (Inl (Library e), a0 @ [RunProbe (probe_cmd ffprobe (path_str (src j)))], w1)"
  | (skipped) a0 w1 meta where
      "fresh_out_dir (out_dir_of j) w = (Inr (), a0, w1)"
      "fst (ffprobe_streams env ffprobe (path_str (src j))) = Inr meta"
      "codecs_are_hls_friendly meta = Inr False"
      "skip_if_incompatible j" "\<not> enable_transcode_if_needed j"
      "process_one env ffmpeg ffprobe j w =
         (Inl (SkipError skip_msg), a0 @ [RunProbe (probe_cmd ffprobe (path_str (src j)))], w1)"
  | (read_failed) a0 w1 meta hls_ok where
      "fresh_out_dir (out_dir_of j) w = (Inr (), a0, w1)"
      "fst (ffprobe_streams env ffprobe (path_str (src j))) = Inr meta"
      "codecs_are_hls_friendly meta = Inr hls_ok"
      "hls_ok \<or> \<not> skip_if_incompatible j \<or> enable_transcode_if_needed j"
      "\<not> readable (enc_stderr env)"
      "process_one env ffmpeg ffprobe j w =
         (Inl (Library UnicodeDecodeError),
          a0 @ [RunProbe (probe_cmd ffprobe (path_str (src j))),
                RunEncoder (input_args ffmpeg j @ (if hls_ok then copy_args else transcode_args)
                            @ output_args j (out_dir_of j))]
             @ snd (progress_loop (float_of env) (float_round env)
                      (fmax (Fin 1) (get_duration_seconds (float_of env) (float_round env) meta))
                      (path_name (src j)) (enc_clock0 env) (enc_stderr env)),
          enc_effect env w1)"
  | (encoder_failed) a0 w1 meta hls_ok where
      "fresh_out_dir (out_dir_of j) w = (Inr (), a0, w1)"
      "fst (ffprobe_streams env ffprobe (path_str (src j))) = Inr meta"
      "codecs_are_hls_friendly meta = Inr hls_ok"
      "hls_ok \<or> \<not> skip_if_incompatible j \<or> enable_transcode_if_needed j"
      "readable (enc_stderr env)"
      "enc_rc env \<noteq> 0"
      "process_one env ffmpeg ffprobe j w =
         (Inl (RuntimeError ffmpeg_failed_msg),
          a0 @ [RunProbe (probe_cmd ffprobe (path_str (src j))),
                RunEncoder (input_args ffmpeg j @ (if hls_ok then copy_args else transcode_args)
                            @ output_args j (out_dir_of j))]
             @ snd (progress_loop (float_of env) (float_round env)
                      (fmax (Fin 1) (get_duration_seconds (float_of env) (float_round env) meta))
                      (path_name (src j)) (enc_clock0 env) (enc_stderr env)),
          enc_effect env w1)"
  | (encoded) a0 w1 meta hls_ok where
      "fresh_out_dir (out_dir_of j) w = (Inr (), a0, w1)"
      "fst (ffprobe_streams env ffprobe (path_str (src j))) = Inr meta"
      "codecs_are_hls_friendly meta = Inr hls_ok"
      "hls_ok \<or> \<not> skip_if_incompatible j \<or> enable_transcode_if_needed j"
      "readable (enc_stderr env)"
      "enc_rc env = 0"
      "process_one env ffmpeg ffprobe j w =
         (case fst (package j (enc_effect env w1)) of Inl e \<Rightarrow> Inl e | Inr u \<Rightarrow> Inr (),
          a0 @ [RunProbe (probe_cmd ffprobe (path_str (src j))),
                RunEncoder (input_args ffmpeg j @ (if hls_ok then copy_args else transcode_args)
                            @ output_args j (out_dir_of j))]
             @ snd (progress_loop (float_of env) (float_round env)
                      (fmax (Fin 1) (get_duration_seconds (float_of env) (float_round env) meta))
                      (path_name (src j)) (enc_clock0 env) (enc_stderr env))
             @ fst (snd (package j (enc_effect env w1)))
             @ (case fst (package j (enc_effect env w1)) of
                  Inl e \<Rightarrow> []
                | Inr u \<Rightarrow> [Log (''DONE: '' @ path_name (src j) @ '' '' @ right_arrow @ '' ''
                                  @ path_name (zip_path_of j)),
                             FileProgress (path_name (src j)) 100]),
          snd (snd (package j (enc_effect env w1))))"
proof (cases "fst (fresh_out_dir (out_dir_of j) w)")
  case (Inl e)
  then show ?thesis using setup_failed process_one_setup_failed by blast
next
  case (Inr u)
  then obtain a0 w1 where fr: "fresh_out_dir (out_dir_of j) w = (Inr (), a0, w1)"
    by (cases "fresh_out_dir (out_dir_of j) w") auto
  show ?thesis
  proof (cases "fst (ffprobe_streams env ffprobe (path_str (src j)))")
    case (Inl e)
    then show ?thesis using probe_failed [OF fr] process_one_probe_failed [OF fr] by blast
  next
    case pr: (Inr meta)
    show ?thesis
    proof (cases "codecs_are_hls_friendly meta")
      case (Inl e)
      then show ?thesis using codecs_failed [OF fr pr] process_one_codecs_failed [OF fr pr] by blast
    next
      case co: (Inr hls_ok)
      show ?thesis
      proof (cases "\<not> hls_ok \<and> skip_if_incompatible j \<and> \<not> enable_transcode_if_needed j")
        case True
        with co have co': "codecs_are_hls_friendly meta = Inr False" by simp
        from True skipped [OF fr pr co'] process_one_skipped [OF fr pr co'] show ?thesis by blast
      next
        case False
        then have pol: "hls_ok \<or> \<not> skip_if_incompatible j \<or> enable_transcode_if_needed j" by blast
        show ?thesis
        proof (cases "readable (enc_stderr env)")
          case unread: False
          from read_failed [OF fr pr co pol unread] process_one_read_failed [OF fr pr co pol unread]
          show ?thesis by blast
        next
          case rd: True
          show ?thesis
          proof (cases "enc_rc env = 0")
            case True
            from encoded [OF fr pr co pol rd True] process_one_encoded [OF fr pr co pol rd True]
            show ?thesis by blast
          next
            case False
            from encoder_failed [OF fr pr co pol rd False]
              process_one_encoder_failed [OF fr pr co pol rd False]
            show ?thesis by blast
          qed
        qed
      qed
    qed
  qed
qed

subsection \<open>The actions of one job\<close>

lemma fresh_actions:
  "a \<in> set (fst (snd (fresh_out_dir d w))) \<Longrightarrow> a = Rmtree d \<or> a = Mkdir d"
  by (auto simp: fresh_out_dir_def Let_def split: sum.splits if_splits)

lemma percent_of_range: "percent_of rnd cur d = Some p \<Longrightarrow> 0 \<le> p \<and> p \<le> 100"
  by (auto simp: percent_of_def split: sum.splits)

lemma line_pct_range: "line_pct pf rnd d line = Some p \<Longrightarrow> 0 \<le> p \<and> p \<le> 100"
  by (auto simp: line_pct_def split: option.splits dest: percent_of_range)

lemma progress_actions:
  "a \<in> set (snd (progress_loop pf rnd d n lu ls)) \<Longrightarrow>
     \<exists>p. a = FileProgress n p \<and> 0 \<le> p \<and> p \<le> 100"
  by (induction pf rnd d n lu ls rule: progress_loop.induct)
     (auto split: if_splits option.splits dest: line_pct_range)

lemma zip_writes_actions: "a \<in> set (zip_writes d w) \<Longrightarrow> \<exists>p n. a = ZipWrite p n"
  by (auto simp: zip_writes_def)

lemma package_actions:
  "a \<in> set (fst (snd (package j w))) \<Longrightarrow>
     a = Unlink (zip_path_of j) \<or> a = ZipOpen (zip_path_of j) \<or> (\<exists>p n. a = ZipWrite p n)
     \<or> a = Rmtree (out_dir_of j)"
  by (auto simp: package_def Let_def split: sum.splits if_splits dest: zip_writes_actions)

lemma encoder_calls_Nil: "encoder_calls [] = []"
  by (simp add: encoder_calls_def)

lemma encoder_calls_Cons:
  "encoder_calls (x # xs) = (case x of RunEncoder args \<Rightarrow> [args] | _ \<Rightarrow> []) @ encoder_calls xs"
  by (simp add: encoder_calls_def)



lemma encoder_calls_append: "encoder_calls (xs @ ys) = encoder_calls xs @ encoder_calls ys"
  by (simp add: encoder_calls_def)

lemma encoder_calls_fresh: "fresh_out_dir d w = (r, a0, w1) \<Longrightarrow> encoder_calls a0 = []"
  using fresh_actions [of _ d w] by (fastforce simp: encoder_calls_def)

lemma encoder_calls_progress: "encoder_calls (snd (progress_loop pf rnd d n lu ls)) = []"
  by (auto simp: encoder_calls_def dest: progress_actions)

lemma encoder_calls_package: "encoder_calls (fst (snd (package j w))) = []"
  by (auto simp: encoder_calls_def dest: package_actions)





subsection \<open>The path chosen for a job\<close>

text \<open>
  C1. Once the working directory is set up and the prober has answered, the encoder
  call of the job is decided by \<open>hls_ok\<close> and the two flags. With \<open>hls_ok\<close> the
  encoder is started once, and between the input and the output arguments it is given
  \<^verbatim>\<open>-c:v copy -c:a copy\<close>, the copy of the video and of the audio stream, and
  nothing else. Without \<open>hls_ok\<close>, and with skipping off or the fallback on, it is
  started once and given \<^verbatim>\<open>-c:v libx264 -preset veryfast -crf 18 -c:a aac -b:a 192k\<close>
  there. Otherwise the job raises SkipError and the encoder is not started. The
  argument lists are those of lines 197 to 214, word for word.
\<close>

theorem conversion_path_chosen:
  assumes "fst (fresh_out_dir (out_dir_of j) w) = Inr ()"
      and "fst (ffprobe_streams env ffprobe (path_str (src j))) = Inr meta"
      and "codecs_are_hls_friendly meta = Inr hls_ok"
  shows "(hls_ok \<longrightarrow>
            encoder_calls (fst (snd (process_one env ffmpeg ffprobe j w)))
            = [[ffmpeg, ''-y'', ''-hide_banner'', ''-loglevel'', ''error'', ''-stats'',
                ''-i'', path_str (src j),
                ''-c:v'', ''copy'', ''-c:a'', ''copy'',
                ''-movflags'', ''+faststart'', ''-f'', ''hls'',
                ''-hls_time'', py_str_int (segment_seconds j),
                ''-hls_list_size'', ''0'',
                ''-hls_segment_filename'',
                path_str (out_root j @ [path_stem (src j) @ ''_hls'', ''segment_%05d.ts'']),
                path_str (out_root j @ [path_stem (src j) @ ''_hls'', ''playlist.m3u8''])]])
       \<and> (\<not> hls_ok \<and> (\<not> skip_if_incompatible j \<or> enable_transcode_if_needed j) \<longrightarrow>
            encoder_calls (fst (snd (process_one env ffmpeg ffprobe j w)))
            = [[ffmpeg, ''-y'', ''-hide_banner'', ''-loglevel'', ''error'', ''-stats'',
                ''-i'', path_str (src j),
                ''-c:v'', ''libx264'', ''-preset'', ''veryfast'', ''-crf'', ''18'',
                ''-c:a'', ''aac'', ''-b:a'', ''192k'',
                ''-movflags'', ''+faststart'', ''-f'', ''hls'',
                ''-hls_time'', py_str_int (segment_seconds j),
                ''-hls_list_size'', ''0'',
                ''-hls_segment_filename'',
                path_str (out_root j @ [path_stem (src j) @ ''_hls'', ''segment_%05d.ts'']),
                path_str (out_root j @ [path_stem (src j) @ ''_hls'', ''playlist.m3u8''])]])
       \<and> (\<not> hls_ok \<and> skip_if_incompatible j \<and> \<not> enable_transcode_if_needed j \<longrightarrow>
            fst (process_one env ffmpeg ffprobe j w) = Inl (SkipError skip_msg)
            \<and> encoder_calls (fst (snd (process_one env ffmpeg ffprobe j w))) = [])"
proof -
  have args: "input_args ffmpeg j @ (if h then copy_args else transcode_args)
                @ output_args j (out_dir_of j)
        = [ffmpeg, ''-y'', ''-hide_banner'', ''-loglevel'', ''error'', ''-stats'',
           ''-i'', path_str (src j)]
          @ (if h then [''-c:v'', ''copy'', ''-c:a'', ''copy'']
             else [''-c:v'', ''libx264'', ''-preset'', ''veryfast'', ''-crf'', ''18'',
                   ''-c:a'', ''aac'', ''-b:a'', ''192k''])
          @ [''-movflags'', ''+faststart'', ''-f'', ''hls'',
             ''-hls_time'', py_str_int (segment_seconds j),
             ''-hls_list_size'', ''0'',
             ''-hls_segment_filename'',
             path_str (out_root j @ [path_stem (src j) @ ''_hls'', ''segment_%05d.ts'']),
             path_str (out_root j @ [path_stem (src j) @ ''_hls'', ''playlist.m3u8''])]"
    for h
    by (simp add: input_args_def copy_args_def transcode_args_def output_args_def out_dir_of_def)
  show ?thesis
  proof (cases rule: process_one_outcomes [where j = j and w = w and env = env and ffprobe = ffprobe and ffmpeg = ffmpeg])
    case (setup_failed e)
    with assms show ?thesis by simp
  next
    case (probe_failed a0 w1 e)
    with assms show ?thesis by simp
  next
    case (codecs_failed a0 w1 meta e)
    with assms show ?thesis by simp
  next
    case (skipped a0 w1 meta')
    with assms have "\<not> hls_ok" by simp
    with skipped show ?thesis
      by (simp add: encoder_calls_append encoder_calls_fresh encoder_calls_Cons encoder_calls_Nil)
  next
    case (read_failed a0 w1 meta' h)
    with assms have h: "h = hls_ok" by simp
    from read_failed(6) have "encoder_calls (fst (snd (process_one env ffmpeg ffprobe j w)))
        = [input_args ffmpeg j @ (if h then copy_args else transcode_args)
           @ output_args j (out_dir_of j)]"
      by (simp add: encoder_calls_append encoder_calls_fresh [OF read_failed(1)]
            encoder_calls_progress encoder_calls_Cons encoder_calls_Nil)
    with h read_failed(4) show ?thesis by (simp add: args)
  next
    case (encoder_failed a0 w1 meta' h)
    with assms have h: "h = hls_ok" by simp
    from encoder_failed(7) have "encoder_calls (fst (snd (process_one env ffmpeg ffprobe j w)))
        = [input_args ffmpeg j @ (if h then copy_args else transcode_args)
           @ output_args j (out_dir_of j)]"
      by (simp add: encoder_calls_append encoder_calls_fresh [OF encoder_failed(1)]
            encoder_calls_progress encoder_calls_Cons encoder_calls_Nil)
    with h encoder_failed(4) show ?thesis by (simp add: args)
  next
    case (encoded a0 w1 meta' h)
    with assms have h: "h = hls_ok" by simp
    from encoded(7) have "encoder_calls (fst (snd (process_one env ffmpeg ffprobe j w)))
        = [input_args ffmpeg j @ (if h then copy_args else transcode_args)
           @ output_args j (out_dir_of j)]"
      by (simp add: encoder_calls_append encoder_calls_fresh [OF encoded(1)]
            encoder_calls_progress encoder_calls_package encoder_calls_Cons encoder_calls_Nil
          split: sum.splits)
    with h encoded(4) show ?thesis by (simp add: args)
  qed
qed

theorem conversion_path_chosen_witness:
  "codecs_are_hls_friendly ex_meta_h264 = Inr True
   \<and> encoder_calls (fst (snd (process_one (ex_env ex_meta_h264 0) ''ffmpeg'' ''ffprobe'' ex_job ex_fs_old)))
       = [[''ffmpeg'', ''-y'', ''-hide_banner'', ''-loglevel'', ''error'', ''-stats'',
           ''-i'', ''/videos/clip.mp4'',
           ''-c:v'', ''copy'', ''-c:a'', ''copy'',
           ''-movflags'', ''+faststart'', ''-f'', ''hls'', ''-hls_time'', ''6'',
           ''-hls_list_size'', ''0'',
           ''-hls_segment_filename'', ''/out/clip_hls/segment_%05d.ts'',
           ''/out/clip_hls/playlist.m3u8'']]
   \<and> codecs_are_hls_friendly ex_meta_hevc = Inr False
   \<and> encoder_calls (fst (snd (process_one (ex_env ex_meta_hevc 0) ''ffmpeg'' ''ffprobe''
                                 (ex_job \<lparr> enable_transcode_if_needed := True \<rparr>) ex_fs_old)))
       = [[''ffmpeg'', ''-y'', ''-hide_banner'', ''-loglevel'', ''error'', ''-stats'',
           ''-i'', ''/videos/clip.mp4'',
           ''-c:v'', ''libx264'', ''-preset'', ''veryfast'', ''-crf'', ''18'',
           ''-c:a'', ''aac'', ''-b:a'', ''192k'',
           ''-movflags'', ''+faststart'', ''-f'', ''hls'', ''-hls_time'', ''6'',
           ''-hls_list_size'', ''0'',
           ''-hls_segment_filename'', ''/out/clip_hls/segment_%05d.ts'',
           ''/out/clip_hls/playlist.m3u8'']]
   \<and> fst (process_one (ex_env ex_meta_hevc 0) ''ffmpeg'' ''ffprobe'' ex_job ex_fs_old)
       = Inl (SkipError skip_msg)
   \<and> encoder_calls (fst (snd (process_one (ex_env ex_meta_hevc 0) ''ffmpeg'' ''ffprobe'' ex_job ex_fs_old)))
       = []"
proof -
  let ?tj = "ex_job \<lparr> enable_transcode_if_needed := True \<rparr>"
  have h1: "fst (fresh_out_dir (out_dir_of ex_job) ex_fs_old) = Inr ()"
    by code_simp
  have h1': "fst (fresh_out_dir (out_dir_of ?tj) ex_fs_old) = Inr ()"
    by code_simp
  have h2: "fst (ffprobe_streams (ex_env ex_meta_h264 0) ''ffprobe'' (path_str (src ex_job)))
      = Inr ex_meta_h264"
    by code_simp
  have h2': "fst (ffprobe_streams (ex_env ex_meta_hevc 0) ''ffprobe'' (path_str (src ex_job)))
      = Inr ex_meta_hevc"
    by code_simp
  have h2'': "fst (ffprobe_streams (ex_env ex_meta_hevc 0) ''ffprobe'' (path_str (src ?tj)))
      = Inr ex_meta_hevc"
    by code_simp
  have h3: "codecs_are_hls_friendly ex_meta_h264 = Inr True"
    by code_simp
  have h3': "codecs_are_hls_friendly ex_meta_hevc = Inr False"
    by code_simp
  have f: "skip_if_incompatible ex_job" "\<not> enable_transcode_if_needed ex_job"
    "enable_transcode_if_needed ?tj"
    by (simp_all add: ex_job_def)
  have v: "path_str (src ex_job) = ''/videos/clip.mp4''"
    "path_str (src ?tj) = ''/videos/clip.mp4''"
    "py_str_int (segment_seconds ex_job) = ''6''"
    "py_str_int (segment_seconds ?tj) = ''6''"
    "path_str (out_root ex_job @ [path_stem (src ex_job) @ ''_hls'', ''segment_%05d.ts''])
       = ''/out/clip_hls/segment_%05d.ts''"
    "path_str (out_root ?tj @ [path_stem (src ?tj) @ ''_hls'', ''segment_%05d.ts''])
       = ''/out/clip_hls/segment_%05d.ts''"
    "path_str (out_root ex_job @ [path_stem (src ex_job) @ ''_hls'', ''playlist.m3u8''])
       = ''/out/clip_hls/playlist.m3u8''"
    "path_str (out_root ?tj @ [path_stem (src ?tj) @ ''_hls'', ''playlist.m3u8''])
       = ''/out/clip_hls/playlist.m3u8''"
    by code_simp+
  from conversion_path_chosen [OF h1 h2 h3, where ffmpeg = "''ffmpeg''"]
  have a: "encoder_calls (fst (snd (process_one (ex_env ex_meta_h264 0) ''ffmpeg'' ''ffprobe''
                                       ex_job ex_fs_old)))
       = [[''ffmpeg'', ''-y'', ''-hide_banner'', ''-loglevel'', ''error'', ''-stats'',
           ''-i'', ''/videos/clip.mp4'',
           ''-c:v'', ''copy'', ''-c:a'', ''copy'',
           ''-movflags'', ''+faststart'', ''-f'', ''hls'', ''-hls_time'', ''6'',
           ''-hls_list_size'', ''0'',
           ''-hls_segment_filename'', ''/out/clip_hls/segment_%05d.ts'',
           ''/out/clip_hls/playlist.m3u8'']]"
    by (simp only: v simp_thms)
  from conversion_path_chosen [OF h1' h2'' h3', where ffmpeg = "''ffmpeg''"] f
  have b: "encoder_calls (fst (snd (process_one (ex_env ex_meta_hevc 0) ''ffmpeg'' ''ffprobe''
                                       ?tj ex_fs_old)))
       = [[''ffmpeg'', ''-y'', ''-hide_banner'', ''-loglevel'', ''error'', ''-stats'',
           ''-i'', ''/videos/clip.mp4'',
           ''-c:v'', ''libx264'', ''-preset'', ''veryfast'', ''-crf'', ''18'',
           ''-c:a'', ''aac'', ''-b:a'', ''192k'',
           ''-movflags'', ''+faststart'', ''-f'', ''hls'', ''-hls_time'', ''6'',
           ''-hls_list_size'', ''0'',
           ''-hls_segment_filename'', ''/out/clip_hls/segment_%05d.ts'',
           ''/out/clip_hls/playlist.m3u8'']]"
    by (simp only: v simp_thms)
  from conversion_path_chosen [OF h1 h2' h3', where ffmpeg = "''ffmpeg''"] f
  have c: "fst (process_one (ex_env ex_meta_hevc 0) ''ffmpeg'' ''ffprobe'' ex_job ex_fs_old)
        = Inl (SkipError skip_msg)
      \<and> encoder_calls (fst (snd (process_one (ex_env ex_meta_hevc 0) ''ffmpeg'' ''ffprobe''
                                        ex_job ex_fs_old))) = []"
    by simp
  from h3 h3' a b c show ?thesis by simp
qed

subsection \<open>Skipped jobs\<close>

text \<open>
  C2, as first stated, fails: a skipped job has made its working directory. Here the
  directory does not exist before the job and is an empty directory after it.
\<close>

theorem skipped_job_creates_working_dir:
  "codecs_are_hls_friendly ex_meta_hevc = Inr False
   \<and> skip_if_incompatible ex_job
   \<and> \<not> enable_transcode_if_needed ex_job
   \<and> lookup ex_fs_new (out_dir_of ex_job) = None
   \<and> process_one (ex_env ex_meta_hevc 0) ''ffmpeg'' ''ffprobe'' ex_job ex_fs_new
       = (Inl (SkipError skip_msg),
          [Mkdir [''out'', ''clip_hls''], RunProbe (probe_cmd ''ffprobe'' ''/videos/clip.mp4'')],
          Dir [(''videos'', Dir [(''clip.mp4'', File)]), (''out'', Dir [(''clip_hls'', Dir [])])])
   \<and> lookup (snd (snd (process_one (ex_env ex_meta_hevc 0) ''ffmpeg'' ''ffprobe'' ex_job ex_fs_new)))
        (out_dir_of ex_job) = Some (Dir [])"
  by code_simp

text \<open>
  C2, amended. A job whose codecs are not accepted, with skipping on and the fallback
  off, raises SkipError, which the controller reports as SKIP; the encoder is not
  started; the working directory has been made before the prober ran and is left
  behind, empty.
\<close>

theorem incompatible_job_skipped:
  assumes "fst (fresh_out_dir (out_dir_of j) w) = Inr ()"
      and "fst (ffprobe_streams env ffprobe (path_str (src j))) = Inr meta"
      and "codecs_are_hls_friendly meta = Inr False"
      and "skip_if_incompatible j"
      and "\<not> enable_transcode_if_needed j"
  shows "fst (process_one env ffmpeg ffprobe j w) = Inl (SkipError skip_msg)
       \<and> terminal_events lt (path_name (src j)) (fst (process_one env ffmpeg ffprobe j w))
           = [Log (''SKIP: '' @ path_name (src j) @ '' '' @ em_dash @ '' '' @ skip_msg),
              FileDone (path_name (src j)) ''SKIP'']
       \<and> encoder_calls (fst (snd (process_one env ffmpeg ffprobe j w))) = []
       \<and> Mkdir (out_dir_of j) \<in> set (fst (snd (process_one env ffmpeg ffprobe j w)))
       \<and> lookup (snd (snd (process_one env ffmpeg ffprobe j w))) (out_dir_of j) = Some (Dir [])"
proof -
  from assms(1) obtain a0 w1 where fr: "fresh_out_dir (out_dir_of j) w = (Inr (), a0, w1)"
    by (cases "fresh_out_dir (out_dir_of j) w") auto
  note p = process_one_skipped [OF fr assms(2) assms(3) assms(4) assms(5), of ffmpeg]
  from fresh_out_dir_ok [OF fr out_dir_of_nonempty]
  have l: "lookup w1 (out_dir_of j) = Some (Dir [])" and m: "Mkdir (out_dir_of j) \<in> set a0"
    by simp_all
  from p l m show ?thesis
    by (simp add: encoder_calls_append encoder_calls_fresh [OF fr] encoder_calls_Cons encoder_calls_Nil)
qed

theorem incompatible_job_skipped_witness:
  "fst (fresh_out_dir (out_dir_of ex_job) ex_fs_old) = Inr ()
   \<and> fst (ffprobe_streams (ex_env ex_meta_hevc 0) ''ffprobe'' (path_str (src ex_job))) = Inr ex_meta_hevc
   \<and> codecs_are_hls_friendly ex_meta_hevc = Inr False
   \<and> skip_if_incompatible ex_job
   \<and> \<not> enable_transcode_if_needed ex_job
   \<and> fst (process_one (ex_env ex_meta_hevc 0) ''ffmpeg'' ''ffprobe'' ex_job ex_fs_old) = Inl (SkipError skip_msg)
   \<and> lookup (snd (snd (process_one (ex_env ex_meta_hevc 0) ''ffmpeg'' ''ffprobe'' ex_job ex_fs_old)))
        (out_dir_of ex_job) = Some (Dir [])"
proof -
  have h1: "fst (fresh_out_dir (out_dir_of ex_job) ex_fs_old) = Inr ()"
    by code_simp
  have h2: "fst (ffprobe_streams (ex_env ex_meta_hevc 0) ''ffprobe'' (path_str (src ex_job))) = Inr ex_meta_hevc"
    by code_simp
  have h3: "codecs_are_hls_friendly ex_meta_hevc = Inr False"
    by code_simp
  have h4: "skip_if_incompatible ex_job"
    by (simp add: ex_job_def)
  have h5: "\<not> enable_transcode_if_needed ex_job"
    by (simp add: ex_job_def)
  from incompatible_job_skipped [OF h1 h2 h3 h4 h5, where ffmpeg = "''ffmpeg''"] h1 h2 h3 h4 h5
  show ?thesis by simp
qed

subsection \<open>A failing encoder\<close>

text \<open>
  C5, as first stated, fails: the reason of the failure is the text
  \<^verbatim>\<open>ffmpeg failed - check logs and ensure codecs are supported.\<close> (with a long
  dash), which does not hold the words \<^verbatim>\<open>non-zero status\<close>.
\<close>

theorem encoder_failure_reason_text:
  "enc_rc (ex_env ex_meta_h264 1) = 1
   \<and> fst (process_one (ex_env ex_meta_h264 1) ''ffmpeg'' ''ffprobe'' ex_job ex_fs_new)
       = Inl (RuntimeError ffmpeg_failed_msg)
   \<and> terminal_events ex_lib_text ''clip.mp4''
         (fst (process_one (ex_env ex_meta_h264 1) ''ffmpeg'' ''ffprobe'' ex_job ex_fs_new))
       = [Log (''FAIL: clip.mp4 '' @ em_dash @ '' ffmpeg failed '' @ em_dash
               @ '' check logs and ensure codecs are supported.''),
          FileDone ''clip.mp4'' ''FAIL'']
   \<and> \<not> str_contains ''non-zero status'' ffmpeg_failed_msg"
  by code_simp

text \<open>
  C5, amended. When the encoder exits with a status other than 0 the job ends with an
  exception, which the controller reports as FAIL, and the file system is left as the
  encoder left it: the working directory is not removed. When every read of the
  encoder's status output gave a line, the exception is the RuntimeError of line 244
  and the reason logged is its fixed text. When a read met bytes that do not decode,
  the exception is the UnicodeDecodeError of that read, the exit status is never looked
  at, and the reason logged is the text of that exception.
\<close>

theorem encoder_failure_keeps_working_dir:
  assumes "fst (fresh_out_dir (out_dir_of j) w) = Inr ()"
      and "fst (ffprobe_streams env ffprobe (path_str (src j))) = Inr meta"
      and "codecs_are_hls_friendly meta = Inr hls_ok"
      and "hls_ok \<or> \<not> skip_if_incompatible j \<or> enable_transcode_if_needed j"
      and "enc_rc env \<noteq> 0"
  shows "fst (process_one env ffmpeg ffprobe j w)
           = (if readable (enc_stderr env) then Inl (RuntimeError ffmpeg_failed_msg)
              else Inl (Library UnicodeDecodeError))
       \<and> terminal_events lt (path_name (src j)) (fst (process_one env ffmpeg ffprobe j w))
           = [Log (''FAIL: '' @ path_name (src j) @ '' '' @ em_dash @ '' ''
                   @ (if readable (enc_stderr env) then ffmpeg_failed_msg
                      else lt UnicodeDecodeError)),
              FileDone (path_name (src j)) ''FAIL'']
       \<and> snd (snd (process_one env ffmpeg ffprobe j w))
           = enc_effect env (snd (snd (fresh_out_dir (out_dir_of j) w)))
       \<and> lookup (snd (snd (process_one env ffmpeg ffprobe j w))) (out_dir_of j)
           = lookup (enc_effect env (snd (snd (fresh_out_dir (out_dir_of j) w)))) (out_dir_of j)"
proof -
  from assms(1) obtain a0 w1 where fr: "fresh_out_dir (out_dir_of j) w = (Inr (), a0, w1)"
    by (cases "fresh_out_dir (out_dir_of j) w") auto
  show ?thesis
  proof (cases "readable (enc_stderr env)")
    case True
    from process_one_encoder_failed [OF fr assms(2) assms(3) assms(4) True assms(5), of ffmpeg]
      fr True
    show ?thesis by simp
  next
    case False
    from process_one_read_failed [OF fr assms(2) assms(3) assms(4) False, of ffmpeg] fr False
    show ?thesis by simp
  qed
qed

theorem encoder_failure_keeps_working_dir_witness:
  "fst (fresh_out_dir (out_dir_of ex_job) ex_fs_new) = Inr ()
   \<and> fst (ffprobe_streams (ex_env ex_meta_h264 1) ''ffprobe'' (path_str (src ex_job))) = Inr ex_meta_h264
   \<and> codecs_are_hls_friendly ex_meta_h264 = Inr True
   \<and> enc_rc (ex_env ex_meta_h264 1) \<noteq> 0
   \<and> readable (enc_stderr (ex_env ex_meta_h264 1))
   \<and> fst (process_one (ex_env ex_meta_h264 1) ''ffmpeg'' ''ffprobe'' ex_job ex_fs_new)
       = Inl (RuntimeError ffmpeg_failed_msg)
   \<and> lookup (snd (snd (process_one (ex_env ex_meta_h264 1) ''ffmpeg'' ''ffprobe'' ex_job ex_fs_new)))
        (out_dir_of ex_job)
       = Some (Dir [(''playlist.m3u8'', File), (''segment_00000.ts'', File), (''segment_00001.ts'', File)])
   \<and> enc_rc (ex_env_undecodable ex_meta_h264 1) \<noteq> 0
   \<and> \<not> readable (enc_stderr (ex_env_undecodable ex_meta_h264 1))
   \<and> fst (process_one (ex_env_undecodable ex_meta_h264 1) ''ffmpeg'' ''ffprobe'' ex_job ex_fs_new)
       = Inl (Library UnicodeDecodeError)
   \<and> terminal_events ex_lib_text (path_name (src ex_job))
         (fst (process_one (ex_env_undecodable ex_meta_h264 1) ''ffmpeg'' ''ffprobe'' ex_job ex_fs_new))
       = [Log (''FAIL: clip.mp4 '' @ em_dash @ '' '' @ ex_lib_text UnicodeDecodeError),
          FileDone ''clip.mp4'' ''FAIL'']
   \<and> lookup (snd (snd (process_one (ex_env_undecodable ex_meta_h264 1) ''ffmpeg'' ''ffprobe''
                          ex_job ex_fs_new)))
        (out_dir_of ex_job)
       = Some (Dir [(''playlist.m3u8'', File), (''segment_00000.ts'', File), (''segment_00001.ts'', File)])"
proof -
  have h1: "fst (fresh_out_dir (out_dir_of ex_job) ex_fs_new) = Inr ()"
    by code_simp
  have h2: "fst (ffprobe_streams (ex_env ex_meta_h264 1) ''ffprobe'' (path_str (src ex_job))) = Inr ex_meta_h264"
    by code_simp
  have h2': "fst (ffprobe_streams (ex_env_undecodable ex_meta_h264 1) ''ffprobe'' (path_str (src ex_job)))
      = Inr ex_meta_h264"
    by code_simp
  have h3: "codecs_are_hls_friendly ex_meta_h264 = Inr True"
    by code_simp
  have h4: "True \<or> \<not> skip_if_incompatible ex_job \<or> enable_transcode_if_needed ex_job"
    by simp
  have h5: "enc_rc (ex_env ex_meta_h264 1) \<noteq> 0"
    by (simp add: ex_env_def)
  have h5': "enc_rc (ex_env_undecodable ex_meta_h264 1) \<noteq> 0"
    by (simp add: ex_env_undecodable_def ex_env_def)
  have r: "readable (enc_stderr (ex_env ex_meta_h264 1))"
    by code_simp
  have r': "\<not> readable (enc_stderr (ex_env_undecodable ex_meta_h264 1))"
    by code_simp
  have n: "path_name (src ex_job) = ''clip.mp4''"
    by code_simp
  have e: "lookup (enc_effect (ex_env ex_meta_h264 1) (snd (snd (fresh_out_dir (out_dir_of ex_job) ex_fs_new))))
             (out_dir_of ex_job)
           = Some (Dir [(''playlist.m3u8'', File), (''segment_00000.ts'', File), (''segment_00001.ts'', File)])"
    by code_simp
  have e': "lookup (enc_effect (ex_env_undecodable ex_meta_h264 1)
                      (snd (snd (fresh_out_dir (out_dir_of ex_job) ex_fs_new))))
             (out_dir_of ex_job)
           = Some (Dir [(''playlist.m3u8'', File), (''segment_00000.ts'', File), (''segment_00001.ts'', File)])"
    by code_simp
  from encoder_failure_keeps_working_dir [OF h1 h2 h3 h4 h5, where ffmpeg = "''ffmpeg''"] r e
  have a: "fst (process_one (ex_env ex_meta_h264 1) ''ffmpeg'' ''ffprobe'' ex_job ex_fs_new)
       = Inl (RuntimeError ffmpeg_failed_msg)
     \<and> lookup (snd (snd (process_one (ex_env ex_meta_h264 1) ''ffmpeg'' ''ffprobe'' ex_job ex_fs_new)))
        (out_dir_of ex_job)
       = Some (Dir [(''playlist.m3u8'', File), (''segment_00000.ts'', File), (''segment_00001.ts'', File)])"
    by simp
  from encoder_failure_keeps_working_dir [OF h1 h2' h3 h4 h5', where ffmpeg = "''ffmpeg''"
      and lt = ex_lib_text] r' e' n
  have b: "fst (process_one (ex_env_undecodable ex_meta_h264 1) ''ffmpeg'' ''ffprobe'' ex_job ex_fs_new)
       = Inl (Library UnicodeDecodeError)
     \<and> terminal_events ex_lib_text (path_name (src ex_job))
         (fst (process_one (ex_env_undecodable ex_meta_h264 1) ''ffmpeg'' ''ffprobe'' ex_job ex_fs_new))
       = [Log (''FAIL: clip.mp4 '' @ em_dash @ '' '' @ ex_lib_text UnicodeDecodeError),
          FileDone ''clip.mp4'' ''FAIL'']
     \<and> lookup (snd (snd (process_one (ex_env_undecodable ex_meta_h264 1) ''ffmpeg'' ''ffprobe''
                          ex_job ex_fs_new)))
        (out_dir_of ex_job)
       = Some (Dir [(''playlist.m3u8'', File), (''segment_00000.ts'', File), (''segment_00001.ts'', File)])"
    by simp
  from h1 h2 h3 h5 h5' r r' n a b show ?thesis by simp
qed

subsection \<open>The working directory\<close>

text \<open>
  C10. A directory that already stands at the working path is removed and made anew,
  and the set-up succeeds; whenever the set-up succeeds the job's actions start with
  the removal (if the path existed), the making of the directory and then the prober,
  and the directory is empty when the prober starts; and a job that is skipped, or
  whose prober fails, or that otherwise ends before the encoder is started, leaves
  that empty directory in the file system.
\<close>

theorem working_dir_recreated_before_probe:
  "(lookup w (out_dir_of j) = Some (Dir old) \<longrightarrow> fst (fresh_out_dir (out_dir_of j) w) = Inr ())
   \<and> (fst (fresh_out_dir (out_dir_of j) w) = Inr () \<longrightarrow>
        (\<exists>rest. fst (snd (process_one env ffmpeg ffprobe j w)) =
                  (if lookup w (out_dir_of j) \<noteq> None then [Rmtree (out_dir_of j)] else [])
                  @ [Mkdir (out_dir_of j), RunProbe (probe_cmd ffprobe (path_str (src j)))] @ rest)
        \<and> lookup (snd (snd (fresh_out_dir (out_dir_of j) w))) (out_dir_of j) = Some (Dir [])
        \<and> ((\<exists>m. fst (process_one env ffmpeg ffprobe j w) = Inl (SkipError m))
             \<or> (\<exists>e. fst (ffprobe_streams env ffprobe (path_str (src j))) = Inl e)
             \<or> encoder_calls (fst (snd (process_one env ffmpeg ffprobe j w))) = []
            \<longrightarrow> lookup (snd (snd (process_one env ffmpeg ffprobe j w))) (out_dir_of j)
                  = Some (Dir [])))"
proof (intro conjI impI)
  assume "lookup w (out_dir_of j) = Some (Dir old)"
  from fresh_out_dir_existing [OF this out_dir_of_nonempty]
  show "fst (fresh_out_dir (out_dir_of j) w) = Inr ()" by auto
next
  assume ok: "fst (fresh_out_dir (out_dir_of j) w) = Inr ()"
  then obtain a0 w1 where fr: "fresh_out_dir (out_dir_of j) w = (Inr (), a0, w1)"
    by (cases "fresh_out_dir (out_dir_of j) w") auto
  note fresh = fresh_out_dir_ok [OF fr out_dir_of_nonempty]
  from fresh(1) fr show "lookup (snd (snd (fresh_out_dir (out_dir_of j) w))) (out_dir_of j) = Some (Dir [])"
    by simp
  show "\<exists>rest. fst (snd (process_one env ffmpeg ffprobe j w)) =
                  (if lookup w (out_dir_of j) \<noteq> None then [Rmtree (out_dir_of j)] else [])
                  @ [Mkdir (out_dir_of j), RunProbe (probe_cmd ffprobe (path_str (src j)))] @ rest"
  proof (cases rule: process_one_outcomes [where j = j and w = w and env = env and ffprobe = ffprobe and ffmpeg = ffmpeg])
    case (setup_failed e)
    with ok show ?thesis by simp
  next
    case (probe_failed a0' w1' e)
    with fr fresh(2) show ?thesis by simp
  next
    case (codecs_failed a0' w1' meta e)
    with fr fresh(2) show ?thesis by simp
  next
    case (skipped a0' w1' meta)
    with fr fresh(2) show ?thesis by simp
  next
    case (read_failed a0' w1' meta hls_ok)
    with fr fresh(2) show ?thesis by simp
  next
    case (encoder_failed a0' w1' meta hls_ok)
    with fr fresh(2) show ?thesis by simp
  next
    case (encoded a0' w1' meta hls_ok)
    with fr fresh(2) show ?thesis by simp
  qed
  assume early: "(\<exists>m. fst (process_one env ffmpeg ffprobe j w) = Inl (SkipError m))
             \<or> (\<exists>e. fst (ffprobe_streams env ffprobe (path_str (src j))) = Inl e)
             \<or> encoder_calls (fst (snd (process_one env ffmpeg ffprobe j w))) = []"
  show "lookup (snd (snd (process_one env ffmpeg ffprobe j w))) (out_dir_of j) = Some (Dir [])"
  proof (cases rule: process_one_outcomes [where j = j and w = w and env = env and ffprobe = ffprobe and ffmpeg = ffmpeg])
    case (setup_failed e)
    with ok show ?thesis by simp
  next
    case (probe_failed a0' w1' e)
    with fr fresh(1) show ?thesis by simp
  next
    case (codecs_failed a0' w1' meta e)
    with fr fresh(1) show ?thesis by simp
  next
    case (skipped a0' w1' meta)
    with fr fresh(1) show ?thesis by simp
  next
    case (read_failed a0' w1' meta hls_ok)
    with early have False
      by (auto simp: encoder_calls_append encoder_calls_Cons)
    then show ?thesis ..
  next
    case (encoder_failed a0' w1' meta hls_ok)
    with early have False
      by (auto simp: encoder_calls_append encoder_calls_Cons)
    then show ?thesis ..
  next
    case (encoded a0' w1' meta hls_ok)
    with early package_not_skip [of j "enc_effect env w1'"] have False
      by (auto simp: encoder_calls_append encoder_calls_Cons split: sum.splits)
    then show ?thesis ..
  qed
qed

theorem working_dir_recreated_before_probe_witness:
  "lookup ex_fs_old (out_dir_of ex_job) = Some (Dir [(''segment_00000.ts'', File)])
   \<and> fst (fresh_out_dir (out_dir_of ex_job) ex_fs_old) = Inr ()
   \<and> fst (process_one (ex_env ex_meta_hevc 0) ''ffmpeg'' ''ffprobe'' ex_job ex_fs_old)
       = Inl (SkipError skip_msg)
   \<and> (\<exists>rest. fst (snd (process_one (ex_env ex_meta_hevc 0) ''ffmpeg'' ''ffprobe'' ex_job ex_fs_old)) =
         [Rmtree (out_dir_of ex_job), Mkdir (out_dir_of ex_job),
          RunProbe (probe_cmd ''ffprobe'' (path_str (src ex_job)))] @ rest)
   \<and> lookup (snd (snd (process_one (ex_env ex_meta_hevc 0) ''ffmpeg'' ''ffprobe'' ex_job ex_fs_old)))
        (out_dir_of ex_job) = Some (Dir [])"
proof -
  have h1: "lookup ex_fs_old (out_dir_of ex_job) = Some (Dir [(''segment_00000.ts'', File)])"
    by code_simp
  have h2: "fst (process_one (ex_env ex_meta_hevc 0) ''ffmpeg'' ''ffprobe'' ex_job ex_fs_old)
       = Inl (SkipError skip_msg)"
    by code_simp
  from working_dir_recreated_before_probe [of ex_fs_old ex_job "[(''segment_00000.ts'', File)]"
      "ex_env ex_meta_hevc 0" "''ffmpeg''" "''ffprobe''"] h1 h2
  show ?thesis by auto
qed

subsection \<open>Progress of one job\<close>




subsection \<open>The archive\<close>

lemma lookup_remove_sibling:
  "a \<noteq> b \<Longrightarrow> lookup (remove (r @ [a]) w) (r @ [b]) = lookup w (r @ [b])"
proof (induction r arbitrary: w)
  case Nil
  then show ?case by (cases w) (simp_all add: map_of_filter_other)
next
  case (Cons c r)
  have ne: "r @ [a] \<noteq> []" by simp
  show ?case
  proof (cases w)
    case File
    then show ?thesis by (simp add: remove_Cons [OF ne])
  next
    case (Dir es)
    with Cons show ?thesis
      by (cases "map_of es c") (simp_all add: remove_Cons [OF ne] map_of_replace_same)
  qed
qed

lemma lookup_create_file_sibling:
  "a \<noteq> b \<Longrightarrow> create_file (r @ [a]) w = Inr w' \<Longrightarrow> lookup w' (r @ [b]) = lookup w (r @ [b])"
proof (induction r arbitrary: w w')
  case Nil
  then show ?case
    by (cases w) (auto simp: map_of_filter_other map_add_def split: option.splits node.splits)
next
  case (Cons c r)
  have ne: "r @ [a] \<noteq> []" by simp
  from Cons.prems(2) obtain es m0 m where w: "w = Dir es" and m0: "map_of es c = Some m0"
    and m: "create_file (r @ [a]) m0 = Inr m"
    and w': "w' = Dir (map (\<lambda>e. if fst e = c then (c, m) else e) es)"
    by (auto simp: create_file_Cons [OF ne] split: node.splits option.splits sum.splits)
  from Cons.IH [OF Cons.prems(1) m] w m0 w' show ?case
    by (simp add: map_of_put_same)
qed

lemma zip_writes_cong: "lookup w d = lookup w' d \<Longrightarrow> zip_writes d w = zip_writes d w'"
  by (simp add: zip_writes_def)

lemma zip_entries_Nil: "zip_entries [] = []"
  by (simp add: zip_entries_def)

lemma zip_entries_Cons:
  "zip_entries (x # xs) = (case x of ZipWrite p n \<Rightarrow> [(p, n)] | _ \<Rightarrow> []) @ zip_entries xs"
  by (simp add: zip_entries_def)

lemma zip_entries_append: "zip_entries (xs @ ys) = zip_entries xs @ zip_entries ys"
  by (simp add: zip_entries_def)

lemma zip_entries_fresh: "fresh_out_dir d w = (r, a0, w1) \<Longrightarrow> zip_entries a0 = []"
  using fresh_actions [of _ d w] by (fastforce simp: zip_entries_def)

lemma zip_entries_progress: "zip_entries (snd (progress_loop pf rnd d n lu ls)) = []"
  by (auto simp: zip_entries_def dest: progress_actions)

lemma package_zip_entries:
  assumes "fst (package j w2) = Inr u"
  shows "zip_entries (fst (snd (package j w2))) = zip_entries (zip_writes (out_dir_of j) w2)"
proof -
  let ?z = "path_stem (src j) @ ''.zip''" and ?h = "path_stem (src j) @ ''_hls''"
  have zp: "zip_path_of j = out_root j @ [?z]" and od: "out_dir_of j = out_root j @ [?h]"
    by (simp_all add: zip_path_of_def out_dir_of_def)
  have ne: "?z \<noteq> ?h" by simp
  obtain w3 where w3: "w3 = (if lookup w2 (zip_path_of j) \<noteq> None then remove (zip_path_of j) w2 else w2)"
    by simp
  have l3: "lookup w3 (out_dir_of j) = lookup w2 (out_dir_of j)"
    using w3 lookup_remove_sibling [OF ne, of "out_root j" w2] by (simp add: zp od)
  from assms w3 obtain w4 where w4: "create_file (zip_path_of j) w3 = Inr w4"
    and acts: "zip_entries (fst (snd (package j w2))) = zip_entries (zip_writes (out_dir_of j) w4)"
    by (auto simp: package_def Let_def zip_entries_append zip_entries_Cons zip_entries_Nil
          split: sum.splits option.splits node.splits if_splits)
  from lookup_create_file_sibling [OF ne, of "out_root j" w3 w4] w4
  have "lookup w4 (out_dir_of j) = lookup w3 (out_dir_of j)" by (simp add: zp od)
  with l3 acts zip_writes_cong [of w4 "out_dir_of j" w2] show ?thesis by simp
qed

lemma walked_files_File: "walked_files d File = []"
  by (simp add: walked_files_def)

lemma concat_map_concat_map:
  "concat (map f (concat (map g xs))) = concat (map (\<lambda>x. concat (map f (g x))) xs)"
  by (induction xs) simp_all

lemma walked_files_Dir:
  "walked_files d (Dir es) =
     map (\<lambda>e. d @ [fst e]) (filter (\<lambda>e. snd e = File) es)
     @ concat (map (\<lambda>e. walked_files (d @ [fst e]) (snd e)) es)"
  by (simp add: walked_files_def concat_map_concat_map comp_def)

lemma zip_writes_walked:
  "zip_entries (zip_writes d w) =
     map (\<lambda>p. (p, relpath p d)) (case lookup w d of None \<Rightarrow> [] | Some n \<Rightarrow> walked_files d n)"
proof -
  have aux: "zip_entries (concat (map (\<lambda>(r, dirs, files). map (\<lambda>f. ZipWrite (r @ [f]) (relpath (r @ [f]) d)) files) xs))
        = map (\<lambda>p. (p, relpath p d)) (concat (map (\<lambda>(r, dirs, files). map (\<lambda>f. r @ [f]) files) xs))" for xs
  proof (induction xs)
    case Nil
    then show ?case by (simp add: zip_entries_Nil)
  next
    case (Cons x xs)
    obtain r dirs files where x: "x = (r, dirs, files)" by (cases x) auto
    have "zip_entries (map (\<lambda>f. ZipWrite (r @ [f]) (relpath (r @ [f]) d)) files)
          = map (\<lambda>p. (p, relpath p d)) (map (\<lambda>f. r @ [f]) files)"
      by (induction files) (simp_all add: zip_entries_Nil zip_entries_Cons)
    with Cons x show ?case by (simp add: zip_entries_append)
  qed
  show ?thesis
    by (simp add: zip_writes_def walked_files_def aux zip_entries_Nil split: option.splits)
qed

lemma walked_files_mset:
  "mset (walked_files d n) = (case n of File \<Rightarrow> {#} | Dir es \<Rightarrow> mset (map ((@) d) (rel_files n)))"
proof (induction d n rule: os_walk.induct)
  case (1 d)
  then show ?case by (simp add: walked_files_File)
next
  case (2 d es)
  have below: "(@) (d @ [a]) = (\<lambda>r. d @ a # r)" for a
    by auto
  have "mset (map ((@) d) (concat (map (\<lambda>e. map ((#) (fst e)) (rel_files (snd e))) xs)))
        = mset (map (\<lambda>e. d @ [fst e]) (filter (\<lambda>e. snd e = File) xs))
          + mset (concat (map (\<lambda>e. walked_files (d @ [fst e]) (snd e)) xs))"
    if "set xs \<subseteq> set es" for xs
    using that
  proof (induction xs)
    case Nil
    then show ?case by simp
  next
    case (Cons x xs)
    then have x: "x \<in> set es" and xs: "set xs \<subseteq> set es" by auto
    show ?case
    proof (cases "snd x")
      case File
      with Cons.IH [OF xs] show ?thesis by (simp add: walked_files_File)
    next
      case (Dir x2)
      with "2.IH" [OF x] have "mset (walked_files (d @ [fst x]) (snd x))
          = mset (map (\<lambda>r. d @ fst x # r) (rel_files (snd x)))"
        by (simp add: below)
      with Dir Cons.IH [OF xs] show ?thesis by (simp add: comp_def)
    qed
  qed
  from this [of es] show ?case by (simp add: walked_files_Dir)
qed

lemma lcp_append: "longest_common_prefix xs (xs @ ys) = xs"
  by (induction xs) simp_all

lemma relpath_below: "rel \<noteq> [] \<Longrightarrow> relpath (d @ rel) d = path_join rel"
  by (simp add: relpath_def Let_def lcp_append)

lemma walked_files_flat:
  "\<forall>e \<in> set es. snd e = File \<Longrightarrow> walked_files d (Dir es) = map (\<lambda>e. d @ [fst e]) es"
proof -
  assume a: "\<forall>e \<in> set es. snd e = File"
  then have "concat (map (\<lambda>e. walked_files (d @ [fst e]) (snd e)) es) = []"
    by (simp add: walked_files_File)
  moreover from a have "filter (\<lambda>e. snd e = File) es = es" by simp
  ultimately show ?thesis by (simp add: walked_files_Dir)
qed

text \<open>
  C6. For a job that returns normally, with \<open>Dir es\<close> the working directory as the
  encoder left it: the files written into the archive are, each exactly once, the
  files at any depth below the working directory, every one under the name that is
  its path relative to that directory (a path of at least one component, so never
  the directory itself and never a path from the root); and when the directory holds
  files only (the manifest and the segments), the archive's names are the bare file
  names, in listing order.
\<close>

theorem archive_holds_relative_paths:
  assumes "fst (process_one env ffmpeg ffprobe j w) = Inr ()"
      and "lookup (enc_effect env (snd (snd (fresh_out_dir (out_dir_of j) w)))) (out_dir_of j)
             = Some (Dir es)"
  shows "mset (zip_entries (fst (snd (process_one env ffmpeg ffprobe j w))))
           = mset (map (\<lambda>rel. (out_dir_of j @ rel, path_join rel)) (rel_files (Dir es)))
       \<and> (\<forall>rel \<in> set (rel_files (Dir es)). rel \<noteq> [])
       \<and> ((\<forall>e \<in> set es. snd e = File) \<longrightarrow>
            zip_entries (fst (snd (process_one env ffmpeg ffprobe j w)))
              = map (\<lambda>e. (out_dir_of j @ [fst e], fst e)) es)"
proof (cases rule: process_one_outcomes [where j = j and w = w and env = env and ffprobe = ffprobe and ffmpeg = ffmpeg])
  case (setup_failed e)
  with assms(1) show ?thesis by simp
next
  case (probe_failed a0 w1 e)
  with assms(1) show ?thesis by simp
next
  case (codecs_failed a0 w1 meta e)
  with assms(1) show ?thesis by simp
next
  case (skipped a0 w1 meta)
  with assms(1) show ?thesis by simp
next
  case (read_failed a0 w1 meta hls_ok)
  with assms(1) show ?thesis by simp
next
  case (encoder_failed a0 w1 meta hls_ok)
  with assms(1) show ?thesis by simp
next
  case (encoded a0 w1 meta hls_ok)
  let ?d = "out_dir_of j"
  from encoded(7) assms(1) obtain u where pk: "fst (package j (enc_effect env w1)) = Inr u"
    by (cases "fst (package j (enc_effect env w1))") simp_all
  from encoded(1) assms(2) have dir: "lookup (enc_effect env w1) ?d = Some (Dir es)"
    by simp
  from encoded(7) pk
  have "zip_entries (fst (snd (process_one env ffmpeg ffprobe j w)))
          = zip_entries (fst (snd (package j (enc_effect env w1))))"
    by (simp add: zip_entries_append zip_entries_fresh [OF encoded(1)] zip_entries_progress
          zip_entries_Cons zip_entries_Nil)
  also have "\<dots> = zip_entries (zip_writes ?d (enc_effect env w1))"
    by (rule package_zip_entries [OF pk])
  also have "\<dots> = map (\<lambda>p. (p, relpath p ?d)) (walked_files ?d (Dir es))"
    by (simp add: zip_writes_walked dir)
  finally have entries: "zip_entries (fst (snd (process_one env ffmpeg ffprobe j w)))
      = map (\<lambda>p. (p, relpath p ?d)) (walked_files ?d (Dir es))" .
  have nonempty: "\<forall>rel \<in> set (rel_files (Dir es)). rel \<noteq> []"
    by auto
  have "mset (map (\<lambda>p. (p, relpath p ?d)) (walked_files ?d (Dir es)))
          = image_mset (\<lambda>p. (p, relpath p ?d)) (mset (walked_files ?d (Dir es)))"
    by (rule mset_map)
  also have "\<dots> = image_mset (\<lambda>p. (p, relpath p ?d)) (mset (map ((@) ?d) (rel_files (Dir es))))"
    by (simp add: walked_files_mset del: rel_files.simps)
  also have "\<dots> = mset (map (\<lambda>rel. (?d @ rel, relpath (?d @ rel) ?d)) (rel_files (Dir es)))"
    by (simp add: multiset.map_comp comp_def del: rel_files.simps)
  also have "\<dots> = mset (map (\<lambda>rel. (?d @ rel, path_join rel)) (rel_files (Dir es)))"
  proof -
    have "map (\<lambda>rel. (?d @ rel, relpath (?d @ rel) ?d)) (rel_files (Dir es))
            = map (\<lambda>rel. (?d @ rel, path_join rel)) (rel_files (Dir es))"
    proof (rule map_cong [OF refl])
      fix rel assume "rel \<in> set (rel_files (Dir es))"
      with nonempty have "rel \<noteq> []" by blast
      then show "(?d @ rel, relpath (?d @ rel) ?d) = (?d @ rel, path_join rel)"
        by (simp add: relpath_below)
    qed
    then show ?thesis by (rule arg_cong)
  qed
  finally have all_files: "mset (map (\<lambda>p. (p, relpath p ?d)) (walked_files ?d (Dir es)))
      = mset (map (\<lambda>rel. (?d @ rel, path_join rel)) (rel_files (Dir es)))" .
  have flat: "map (\<lambda>p. (p, relpath p ?d)) (walked_files ?d (Dir es))
                = map (\<lambda>e. (?d @ [fst e], fst e)) es"
    if "\<forall>e \<in> set es. snd e = File"
    using walked_files_flat [OF that, of ?d] relpath_below [of "[x]" ?d for x]
    by (simp add: comp_def)
  from entries all_files nonempty flat show ?thesis by (simp del: rel_files.simps)
qed

theorem archive_holds_relative_paths_witness:
  "fst (process_one (ex_env ex_meta_h264 0) ''ffmpeg'' ''ffprobe'' ex_job ex_fs_old) = Inr ()
   \<and> lookup (enc_effect (ex_env ex_meta_h264 0) (snd (snd (fresh_out_dir (out_dir_of ex_job) ex_fs_old))))
        (out_dir_of ex_job)
       = Some (Dir [(''playlist.m3u8'', File), (''segment_00000.ts'', File), (''segment_00001.ts'', File)])
   \<and> zip_entries (fst (snd (process_one (ex_env ex_meta_h264 0) ''ffmpeg'' ''ffprobe'' ex_job ex_fs_old)))
       = [([''out'', ''clip_hls'', ''playlist.m3u8''], ''playlist.m3u8''),
          ([''out'', ''clip_hls'', ''segment_00000.ts''], ''segment_00000.ts''),
          ([''out'', ''clip_hls'', ''segment_00001.ts''], ''segment_00001.ts'')]"
proof -
  have h1: "fst (process_one (ex_env ex_meta_h264 0) ''ffmpeg'' ''ffprobe'' ex_job ex_fs_old) = Inr ()"
    by code_simp
  have h2: "lookup (enc_effect (ex_env ex_meta_h264 0) (snd (snd (fresh_out_dir (out_dir_of ex_job) ex_fs_old))))
        (out_dir_of ex_job)
       = Some (Dir [(''playlist.m3u8'', File), (''segment_00000.ts'', File), (''segment_00001.ts'', File)])"
    by code_simp
  have d: "out_dir_of ex_job = [''out'', ''clip_hls'']"
    by code_simp
  from archive_holds_relative_paths [OF h1 h2] h1 h2 d show ?thesis by simp
qed

subsection \<open>The end of a batch\<close>

lemma process_one_no_controller_signal:
  assumes "a \<in> set (fst (snd (process_one env ffmpeg ffprobe j w)))"
  shows "a \<noteq> AllDone \<and> (\<forall>n s. a \<noteq> FileDone n s) \<and> (\<forall>v. a \<noteq> Progress v)"
proof (cases rule: process_one_outcomes [where j = j and w = w and env = env and ffprobe = ffprobe and ffmpeg = ffmpeg])
  case (setup_failed e)
  with assms fresh_actions [of a "out_dir_of j" w] show ?thesis by auto
next
  case (probe_failed a0 w1 e)
  with assms fresh_actions [of a "out_dir_of j" w] show ?thesis by auto
next
  case (codecs_failed a0 w1 meta e)
  with assms fresh_actions [of a "out_dir_of j" w] show ?thesis by auto
next
  case (skipped a0 w1 meta)
  with assms fresh_actions [of a "out_dir_of j" w] show ?thesis by auto
next
  case (read_failed a0 w1 meta hls_ok)
  with assms fresh_actions [of a "out_dir_of j" w] show ?thesis
    by (auto dest: progress_actions)
next
  case (encoder_failed a0 w1 meta hls_ok)
  with assms fresh_actions [of a "out_dir_of j" w] show ?thesis
    by (auto dest: progress_actions)
next
  case (encoded a0 w1 meta hls_ok)
  with assms fresh_actions [of a "out_dir_of j" w] show ?thesis
    by (auto dest: progress_actions package_actions split: sum.splits)
qed

lemma terminal_events_shape:
  "\<exists>logs status. terminal_events lt name res = logs @ [FileDone name status]
     \<and> (\<forall>a \<in> set logs. \<exists>t. a = Log t)"
  by (cases "(lt, name, res)" rule: terminal_events.cases) simp_all

lemma run_jobs_no_all_done: "AllDone \<notin> set (fst (run_jobs env ffmpeg ffprobe n i jobs w))"
proof (induction jobs arbitrary: i w)
  case Nil
  then show ?case by simp
next
  case (Cons j rest)
  let ?p = "process_one (env_of_job env i) ffmpeg ffprobe j w"
  from process_one_no_controller_signal [of AllDone "env_of_job env i" ffmpeg ffprobe j w]
  have a: "AllDone \<notin> set (fst (snd ?p))" by blast
  from terminal_events_shape [of "lib_text (env_of_job env i)" "path_name (src j)" "fst ?p"]
  have b: "AllDone \<notin> set (terminal_events (lib_text (env_of_job env i)) (path_name (src j)) (fst ?p))"
    by auto
  from a b Cons.IH [of "Suc i" "snd (snd ?p)"] show ?case
    by (simp add: Let_def)
qed

text \<open>
  C7. Every run emits the batch-complete signal exactly once, as its last action,
  whatever the jobs, their outcomes and the stop flag. When the binaries are not
  found the run logs the error once, emits the signal and does nothing else: no job
  is processed and the file system is untouched. With the binaries found and no job,
  the signal is all the run emits.
\<close>

theorem batch_complete_once:
  "count_list (fst (run env jobs w)) AllDone = 1
   \<and> last (fst (run env jobs w)) = AllDone
   \<and> (\<forall>e. find_ffmpeg_binaries env = Inl e \<longrightarrow>
          e = FileNotFoundError not_found_msg
          \<and> run env jobs w = ([Log (''ERROR: '' @ not_found_msg), AllDone], w))
   \<and> (\<forall>ffmpeg ffprobe. find_ffmpeg_binaries env = Inr (ffmpeg, ffprobe) \<and> jobs = [] \<longrightarrow>
          run env jobs w = ([AllDone], w))"
proof (cases "find_ffmpeg_binaries env")
  case (Inl e)
  then have "e = FileNotFoundError not_found_msg"
    by (auto simp: find_ffmpeg_binaries_def Let_def split: option.splits)
  with Inl show ?thesis by (simp add: run_def)
next
  case (Inr b)
  obtain ffmpeg ffprobe where b: "b = (ffmpeg, ffprobe)" by (cases b) auto
  obtain acts w1 where r: "run_jobs env ffmpeg ffprobe (length jobs) 1 jobs w = (acts, w1)"
    by (cases "run_jobs env ffmpeg ffprobe (length jobs) 1 jobs w") auto
  from run_jobs_no_all_done [of env ffmpeg ffprobe "length jobs" 1 jobs w] r
  have "count_list acts AllDone = 0" by simp
  with Inr b r show ?thesis by (auto simp: run_def)
qed

theorem batch_complete_once_witness:
  "find_ffmpeg_binaries ex_run_env_missing = Inl (FileNotFoundError not_found_msg)
   \<and> run ex_run_env_missing [ex_job, ex_job, ex_job] ex_fs_new
       = ([Log (''ERROR: '' @ not_found_msg), AllDone], ex_fs_new)
   \<and> find_ffmpeg_binaries ex_run_env = Inr (''/usr/bin/ffmpeg'', ''/usr/bin/ffprobe'')
   \<and> run ex_run_env [] ex_fs_new = ([AllDone], ex_fs_new)
   \<and> count_list (fst (run ex_run_env [ex_job, ex_job, ex_job] ex_fs_new)) AllDone = 1"
proof -
  have h1: "find_ffmpeg_binaries ex_run_env_missing = Inl (FileNotFoundError not_found_msg)"
    by code_simp
  have h2: "find_ffmpeg_binaries ex_run_env = Inr (''/usr/bin/ffmpeg'', ''/usr/bin/ffprobe'')"
    by code_simp
  from batch_complete_once [of ex_run_env_missing "[ex_job, ex_job, ex_job]" ex_fs_new] h1
  have a: "run ex_run_env_missing [ex_job, ex_job, ex_job] ex_fs_new
       = ([Log (''ERROR: '' @ not_found_msg), AllDone], ex_fs_new)"
    by simp
  from batch_complete_once [of ex_run_env "[]" ex_fs_new] h2
  have b: "run ex_run_env [] ex_fs_new = ([AllDone], ex_fs_new)"
    by simp
  from batch_complete_once [of ex_run_env "[ex_job, ex_job, ex_job]" ex_fs_new]
  have c: "count_list (fst (run ex_run_env [ex_job, ex_job, ex_job] ex_fs_new)) AllDone = 1"
    by simp
  from h1 h2 a b c show ?thesis by simp
qed

subsection \<open>Overall progress\<close>

lemma job_reports_skip:
  "\<forall>a \<in> set xs. (\<forall>n s. a \<noteq> FileDone n s) \<and> (\<forall>v. a \<noteq> Progress v) \<Longrightarrow>
   job_reports (xs @ ys) = job_reports ys"
  by (induction xs) (auto split: action.splits)

lemma job_reports_snoc_all_done: "job_reports (xs @ [AllDone]) = job_reports xs"
proof (induction xs rule: job_reports.induct)
  case 1
  then show ?case by simp
next
  case (2 a rest)
  show ?case
  proof (cases a)
    case (FileDone name status)
    show ?thesis
    proof (cases rest)
      case Nil
      with FileDone show ?thesis by simp
    next
      case (Cons b rest')
      with FileDone 2 show ?thesis by (cases b) simp_all
    qed
  qed (use 2 in simp_all)
qed

lemma overall_percents_Cons:
  "overall_percents (x # xs) = (case x of Progress p \<Rightarrow> [p] | _ \<Rightarrow> []) @ overall_percents xs"
  by (simp add: overall_percents_def)

lemma job_reports_percents:
  "job_reports acts = Some reports \<Longrightarrow> overall_percents acts = map (snd \<circ> snd) reports"
proof (induction "length acts" arbitrary: acts reports rule: less_induct)
  case less
  show ?case
  proof (cases acts)
    case Nil
    with less.prems show ?thesis by (simp add: overall_percents_def)
  next
    case (Cons a rest)
    show ?thesis
    proof (cases "\<exists>name status. a = FileDone name status")
      case True
      then obtain name status where a: "a = FileDone name status" by blast
      with Cons less.prems obtain p rest' where rest: "rest = Progress p # rest'"
        by (auto split: list.splits action.splits)
      with a Cons less.prems obtain more where more: "job_reports rest' = Some more"
        and reports: "reports = (name, status, p) # more"
        by auto
      from Cons rest have "length rest' < length acts" by simp
      from less.hyps [OF this more] a Cons rest reports show ?thesis
        by (simp add: overall_percents_Cons)
    next
      case False
      with Cons less.prems have r: "job_reports rest = Some reports" and np: "\<forall>p. a \<noteq> Progress p"
        by (auto split: action.splits)
      from Cons have "length rest < length acts" by simp
      from less.hyps [OF this r] Cons False np show ?thesis
        by (cases a) (simp_all add: overall_percents_Cons)
    qed
  qed
qed

lemma job_reports_terminal:
  "\<exists>status. job_reports (terminal_events lt name res @ Progress v # ys)
     = map_option ((#) (name, status, v)) (job_reports ys)"
proof -
  from terminal_events_shape [of lt name res] obtain logs status
    where t: "terminal_events lt name res = logs @ [FileDone name status]"
      and l: "\<forall>a \<in> set logs. \<exists>t. a = Log t"
    by blast
  from l have "\<forall>a \<in> set logs. (\<forall>n s. a \<noteq> FileDone n s) \<and> (\<forall>v. a \<noteq> Progress v)" by auto
  from job_reports_skip [OF this] t show ?thesis by auto
qed

lemma run_jobs_reports:
  "\<exists>reports. job_reports (fst (run_jobs env ffmpeg ffprobe n i jobs w)) = Some reports
     \<and> map fst reports
         = map (\<lambda>j. path_name (src j))
             (take (length (takeWhile (\<lambda>k. \<not> stop_flag env k) [i..<i + length jobs])) jobs)
     \<and> map (snd \<circ> snd) reports
         = map (\<lambda>k. (int k * 100) div int n)
             (takeWhile (\<lambda>k. \<not> stop_flag env k) [i..<i + length jobs])"
proof (induction jobs arbitrary: i w)
  case Nil
  then show ?case by simp
next
  case (Cons j rest)
  have upt: "[i..<Suc (i + length rest)] = i # [Suc i..<Suc (i + length rest)]"
    by (rule upt_conv_Cons) simp
  show ?case
  proof (cases "stop_flag env i")
    case True
    then show ?thesis by (simp add: upt del: upt_Suc)
  next
    case False
    let ?p = "process_one (env_of_job env i) ffmpeg ffprobe j w"
    let ?later = "run_jobs env ffmpeg ffprobe n (Suc i) rest (snd (snd ?p))"
    from Cons.IH [of "Suc i" "snd (snd ?p)"] obtain more
      where m1: "job_reports (fst ?later) = Some more"
        and m2: "map fst more = map (\<lambda>j. path_name (src j))
             (take (length (takeWhile (\<lambda>k. \<not> stop_flag env k) [Suc i..<Suc i + length rest])) rest)"
        and m3: "map (snd \<circ> snd) more = map (\<lambda>k. (int k * 100) div int n)
             (takeWhile (\<lambda>k. \<not> stop_flag env k) [Suc i..<Suc i + length rest])"
      by blast
    from process_one_no_controller_signal [of _ "env_of_job env i" ffmpeg ffprobe j w]
    have quiet: "\<forall>a \<in> set (fst (snd ?p)). (\<forall>n s. a \<noteq> FileDone n s) \<and> (\<forall>v. a \<noteq> Progress v)"
      by blast
    from job_reports_terminal [of "lib_text (env_of_job env i)" "path_name (src j)" "fst ?p"
        "(int i * 100) div int n" "fst ?later"]
    obtain status where "job_reports (terminal_events (lib_text (env_of_job env i))
            (path_name (src j)) (fst ?p)
          @ Progress ((int i * 100) div int n) # fst ?later)
        = map_option ((#) (path_name (src j), status, (int i * 100) div int n)) (job_reports (fst ?later))"
      by blast
    with False job_reports_skip [OF quiet] m1
    have "job_reports (fst (run_jobs env ffmpeg ffprobe n i (j # rest) w))
        = Some ((path_name (src j), status, (int i * 100) div int n) # more)"
      by (simp add: Let_def)
    with False m2 m3 show ?thesis by (simp add: upt Let_def comp_def del: upt_Suc)
  qed
qed

lemma run_reports:
  assumes "find_ffmpeg_binaries env = Inr (ffmpeg, ffprobe)" and "jobs \<noteq> []"
  shows "\<exists>reports. job_reports (fst (run env jobs w)) = Some reports
           \<and> map fst reports
               = map (\<lambda>j. path_name (src j)) (take (jobs_processed env (length jobs)) jobs)
           \<and> map (snd \<circ> snd) reports
               = map (\<lambda>k. (int k * 100) div int (length jobs))
                   [1..<Suc (jobs_processed env (length jobs))]
           \<and> overall_percents (fst (run env jobs w)) = map (snd \<circ> snd) reports
           \<and> ((\<forall>i. \<not> stop_flag env i) \<longrightarrow>
                 length reports = length jobs
                 \<and> last (overall_percents (fst (run env jobs w))) = 100)"
proof -
  let ?n = "length jobs"
  let ?ks = "takeWhile (\<lambda>k. \<not> stop_flag env k) [1..<Suc ?n]"
  from run_jobs_reports [of env ffmpeg ffprobe ?n 1 jobs w] obtain reports
    where r1: "job_reports (fst (run_jobs env ffmpeg ffprobe ?n 1 jobs w)) = Some reports"
      and r2: "map fst reports = map (\<lambda>j. path_name (src j)) (take (length ?ks) jobs)"
      and r3: "map (snd \<circ> snd) reports = map (\<lambda>k. (int k * 100) div int ?n) ?ks"
    by auto
  from assms(1) have acts: "fst (run env jobs w) = fst (run_jobs env ffmpeg ffprobe ?n 1 jobs w) @ [AllDone]"
    by (simp add: run_def split: prod.splits)
  with r1 have j: "job_reports (fst (run env jobs w)) = Some reports"
    by (simp add: job_reports_snoc_all_done)
  have pre: "?ks = [1..<Suc (length ?ks)]"
  proof -
    have "?ks = take (length ?ks) [1..<Suc ?n]"
      by (rule takeWhile_eq_take)
    also have "\<dots> = [1..<Suc (length ?ks)]"
    proof -
      have "length ?ks \<le> length [1..<Suc ?n]"
        by (rule length_takeWhile_le)
      then have "1 + length ?ks \<le> Suc ?n"
        by (simp del: upt_Suc)
      from take_upt [OF this] show ?thesis
        by (simp del: upt_Suc)
    qed
    finally show ?thesis .
  qed
  have p: "overall_percents (fst (run env jobs w)) = map (snd \<circ> snd) reports"
    by (rule job_reports_percents [OF j])
  have full: "length reports = ?n \<and> last (overall_percents (fst (run env jobs w))) = 100"
    if "\<forall>i. \<not> stop_flag env i"
  proof -
    from that have ks: "?ks = [1..<Suc ?n]" by simp
    from assms(2) have n: "1 \<le> ?n" by (cases jobs) simp_all
    have len: "length [1..<Suc ?n] = ?n" by (simp del: upt_Suc)
    have "length reports = length (map (snd \<circ> snd) reports)" by simp
    also have "\<dots> = length ?ks" by (simp only: r3 length_map)
    also have "\<dots> = ?n" by (simp only: ks len)
    finally have l: "length reports = ?n" .
    from n have "[1..<Suc ?n] = [1..<?n] @ [?n]" by (rule upt_Suc_append)
    then have "last (map (\<lambda>k. (int k * 100) div int ?n) [1..<Suc ?n]) = (int ?n * 100) div int ?n"
      by (simp del: upt_Suc)
    also from assms(2) have "\<dots> = 100" by simp
    finally have "last (map (\<lambda>k. (int k * 100) div int ?n) [1..<Suc ?n]) = 100" .
    then have "last (overall_percents (fst (run env jobs w))) = 100"
      by (simp only: p r3 ks)
    with l show ?thesis by simp
  qed
  have kl: "length ?ks = jobs_processed env ?n"
    by (simp add: jobs_processed_def)
  have r2': "map fst reports = map (\<lambda>j. path_name (src j)) (take (jobs_processed env ?n) jobs)"
    by (rule subst [where P = "\<lambda>x. map fst reports = map (\<lambda>j. path_name (src j)) (take x jobs)",
          OF kl r2])
  have r3': "map (snd \<circ> snd) reports = map (\<lambda>k. (int k * 100) div int ?n) [1..<Suc (length ?ks)]"
    by (rule subst [where P = "\<lambda>x. map (snd \<circ> snd) reports = map (\<lambda>k. (int k * 100) div int ?n) x",
          OF pre r3])
  have r3'': "map (snd \<circ> snd) reports
      = map (\<lambda>k. (int k * 100) div int ?n) [1..<Suc (jobs_processed env ?n)]"
    by (rule subst [where P = "\<lambda>x. map (snd \<circ> snd) reports
          = map (\<lambda>k. (int k * 100) div int ?n) [1..<Suc x]", OF kl r3'])
  from full have full': "(\<forall>i. \<not> stop_flag env i) \<longrightarrow>
      length reports = ?n \<and> last (overall_percents (fst (run env jobs w))) = 100"
    by blast
  from j r2' r3'' p full' show ?thesis by blast
qed


lemma run_without_binaries:
  "find_ffmpeg_binaries env = Inl e \<Longrightarrow> overall_percents (fst (run env jobs w)) = []"
  by (simp add: run_def overall_percents_def)

text \<open>
  C4, as first stated, fails. A run of two jobs that is asked to stop while the first
  one is processed emits one overall percent, 50, and never 100; and a run that does
  not find the binaries emits none.
\<close>

theorem stopped_run_ends_at_50:
  "[ex_job, ex_job] \<noteq> []
   \<and> find_ffmpeg_binaries ex_run_env_stopped = Inr (''/usr/bin/ffmpeg'', ''/usr/bin/ffprobe'')
   \<and> job_reports (fst (run ex_run_env_stopped [ex_job, ex_job] ex_fs_new))
       = Some [(''clip.mp4'', ''OK'', 50)]
   \<and> overall_percents (fst (run ex_run_env_stopped [ex_job, ex_job] ex_fs_new)) = [50]
   \<and> find_ffmpeg_binaries ex_run_env_missing = Inl (FileNotFoundError not_found_msg)
   \<and> overall_percents (fst (run ex_run_env_missing [ex_job, ex_job] ex_fs_new)) = []"
  by code_simp

text \<open>
  C4, amended. For a list of \<open>N > 0\<close> jobs. When the binaries are not found, no
  overall percent is emitted. When they are found, the terminal event of every job the
  run gets to (the jobs before the first test that finds the stop flag set) is
  followed at once by one overall percent, and there is no overall percent elsewhere;
  the \<open>k\<close>-th of them belongs to the \<open>k\<close>-th job and is the integer quotient of
  \<open>k * 100\<close> by \<open>N\<close>; and when nobody stops the run there are \<open>N\<close> of them and the
  last is 100.
\<close>

theorem overall_progress_after_each_job:
  assumes "jobs \<noteq> []"
  shows "(\<forall>e. find_ffmpeg_binaries env = Inl e \<longrightarrow> overall_percents (fst (run env jobs w)) = [])
       \<and> (\<forall>ffmpeg ffprobe. find_ffmpeg_binaries env = Inr (ffmpeg, ffprobe) \<longrightarrow>
            (\<exists>reports. job_reports (fst (run env jobs w)) = Some reports
               \<and> map fst reports
                   = map (\<lambda>j. path_name (src j)) (take (jobs_processed env (length jobs)) jobs)
               \<and> map (snd \<circ> snd) reports
                   = map (\<lambda>k. (int k * 100) div int (length jobs))
                       [1..<Suc (jobs_processed env (length jobs))]
               \<and> overall_percents (fst (run env jobs w)) = map (snd \<circ> snd) reports
               \<and> ((\<forall>i. \<not> stop_flag env i) \<longrightarrow>
                     length reports = length jobs
                     \<and> last (overall_percents (fst (run env jobs w))) = 100)))"
proof (intro conjI allI impI)
  fix e
  assume "find_ffmpeg_binaries env = Inl e"
  then show "overall_percents (fst (run env jobs w)) = []"
    by (rule run_without_binaries)
next
  fix ffmpeg ffprobe
  assume "find_ffmpeg_binaries env = Inr (ffmpeg, ffprobe)"
  from run_reports [OF this assms]
  show "\<exists>reports. job_reports (fst (run env jobs w)) = Some reports
               \<and> map fst reports
                   = map (\<lambda>j. path_name (src j)) (take (jobs_processed env (length jobs)) jobs)
               \<and> map (snd \<circ> snd) reports
                   = map (\<lambda>k. (int k * 100) div int (length jobs))
                       [1..<Suc (jobs_processed env (length jobs))]
               \<and> overall_percents (fst (run env jobs w)) = map (snd \<circ> snd) reports
               \<and> ((\<forall>i. \<not> stop_flag env i) \<longrightarrow>
                     length reports = length jobs
                     \<and> last (overall_percents (fst (run env jobs w))) = 100)" .
qed

theorem overall_progress_after_each_job_witness:
  "find_ffmpeg_binaries ex_run_env = Inr (''/usr/bin/ffmpeg'', ''/usr/bin/ffprobe'')
   \<and> [ex_job, ex_job, ex_job] \<noteq> []
   \<and> (\<forall>i. \<not> stop_flag ex_run_env i)
   \<and> job_reports (fst (run ex_run_env [ex_job, ex_job, ex_job] ex_fs_new))
       = Some [(''clip.mp4'', ''OK'', 33), (''clip.mp4'', ''SKIP'', 66), (''clip.mp4'', ''OK'', 100)]
   \<and> overall_percents (fst (run ex_run_env [ex_job, ex_job, ex_job] ex_fs_new)) = [33, 66, 100]
   \<and> last (overall_percents (fst (run ex_run_env [ex_job, ex_job, ex_job] ex_fs_new))) = 100
   \<and> find_ffmpeg_binaries ex_run_env_missing = Inl (FileNotFoundError not_found_msg)
   \<and> overall_percents (fst (run ex_run_env_missing [ex_job, ex_job, ex_job] ex_fs_new)) = []"
proof -
  have h1: "find_ffmpeg_binaries ex_run_env = Inr (''/usr/bin/ffmpeg'', ''/usr/bin/ffprobe'')"
    by code_simp
  have h1': "find_ffmpeg_binaries ex_run_env_missing = Inl (FileNotFoundError not_found_msg)"
    by code_simp
  have h2: "[ex_job, ex_job, ex_job] \<noteq> []"
    by simp
  have h3: "\<forall>i. \<not> stop_flag ex_run_env i"
    by (simp add: ex_run_env_def)
  have r: "job_reports (fst (run ex_run_env [ex_job, ex_job, ex_job] ex_fs_new))
       = Some [(''clip.mp4'', ''OK'', 33), (''clip.mp4'', ''SKIP'', 66), (''clip.mp4'', ''OK'', 100)]"
    by code_simp
  from overall_progress_after_each_job [OF h2, of ex_run_env ex_fs_new] h1 h3 r
  have a: "overall_percents (fst (run ex_run_env [ex_job, ex_job, ex_job] ex_fs_new)) = [33, 66, 100]
     \<and> last (overall_percents (fst (run ex_run_env [ex_job, ex_job, ex_job] ex_fs_new))) = 100"
    by auto
  from overall_progress_after_each_job [OF h2, of ex_run_env_missing ex_fs_new] h1'
  have b: "overall_percents (fst (run ex_run_env_missing [ex_job, ex_job, ex_job] ex_fs_new)) = []"
    by blast
  from h1 h1' h2 h3 r a b show ?thesis by blast
qed

end
